theory Spec2Isabelle
  imports Complex_Main "HOL-Library.Sublist" "HOL-Library.AList"
begin

section \<open>JavaScript strings and values\<close>

text \<open>
  A string is the UTF-8 byte string of well-formed text; on such text the bytes of \<open>q\<close>
  occur in the bytes of \<open>s\<close> exactly when \<open>s.includes(q)\<close>, the contiguous-substring
  test.

  \<open>trim\<close> removes from both ends every character that ECMAScript counts as WhiteSpace
  or LineTerminator: U+0009 to U+000D, U+0020, U+00A0, U+1680, U+2000 to U+200A, U+2028,
  U+2029, U+202F, U+205F, U+3000 and U+FEFF. \<open>white_space\<close> lists their encodings.

  \<open>toLowerCase\<close> applies the case mapping of Unicode, a table that is no part of the
  program. The table is the parameter \<open>lc\<close> of every operation that lower-cases: it
  gives the lower case of a non-empty string; the empty string is its own lower case.
\<close>

definition white_space :: "string list" where
  "white_space =
     [[CHR 0x09], [CHR 0x0A], [CHR 0x0B], [CHR 0x0C], [CHR 0x0D], [CHR 0x20],
      [CHR 0xC2, CHR 0xA0],
      [CHR 0xE1, CHR 0x9A, CHR 0x80],
      [CHR 0xE2, CHR 0x80, CHR 0x80], [CHR 0xE2, CHR 0x80, CHR 0x81],
      [CHR 0xE2, CHR 0x80, CHR 0x82], [CHR 0xE2, CHR 0x80, CHR 0x83],
      [CHR 0xE2, CHR 0x80, CHR 0x84], [CHR 0xE2, CHR 0x80, CHR 0x85],
      [CHR 0xE2, CHR 0x80, CHR 0x86], [CHR 0xE2, CHR 0x80, CHR 0x87],
      [CHR 0xE2, CHR 0x80, CHR 0x88], [CHR 0xE2, CHR 0x80, CHR 0x89],
      [CHR 0xE2, CHR 0x80, CHR 0x8A],
      [CHR 0xE2, CHR 0x80, CHR 0xA8], [CHR 0xE2, CHR 0x80, CHR 0xA9],
      [CHR 0xE2, CHR 0x80, CHR 0xAF],
      [CHR 0xE2, CHR 0x81, CHR 0x9F],
      [CHR 0xE3, CHR 0x80, CHR 0x80],
      [CHR 0xEF, CHR 0xBB, CHR 0xBF]]"

text \<open>Dropping, as long as there is one, a leading occurrence of one of the sequences
  \<open>ws\<close>.\<close>

function strip_start :: "string list \<Rightarrow> string \<Rightarrow> string" where
  "strip_start ws s =
     (case find (\<lambda>w. w \<noteq> [] \<and> prefix w s) ws of
        None \<Rightarrow> s
      | Some w \<Rightarrow> strip_start ws (drop (length w) s))"
  by pat_completeness auto
termination
proof (relation "measure (\<lambda>(ws, s). length s)")
  show "wf (measure (\<lambda>(ws, s). length s))" by simp
next
  fix ws :: "string list" and s w :: string
  assume "find (\<lambda>w. w \<noteq> [] \<and> prefix w s) ws = Some w"
  then have "w \<noteq> []" and "prefix w s"
    by (auto simp: find_Some_iff)
  then have "0 < length w" and "length w \<le> length s"
    by (auto simp: prefix_def)
  then have "length s - length w < length s"
    by arith
  then show "((ws, drop (length w) s), (ws, s)) \<in> measure (\<lambda>(ws, s). length s)"
    by simp
qed

declare strip_start.simps [simp del]

definition trim :: "string \<Rightarrow> string" where
  "trim s = rev (strip_start (map rev white_space) (rev (strip_start white_space s)))"

definition toLowerCase :: "(string \<Rightarrow> string) \<Rightarrow> string \<Rightarrow> string" where
  "toLowerCase lc s = (if s = [] then [] else lc s)"

definition includes_str :: "string \<Rightarrow> string \<Rightarrow> bool" where
  "includes_str s q = sublist q s"

text \<open>Truthiness of an optional string: absent and the empty string are falsy.\<close>

fun truthy_str :: "string option \<Rightarrow> bool" where
  "truthy_str None = False"
| "truthy_str (Some s) = (s \<noteq> [])"

text \<open>\<open>x || ''\<close> on an optional string.\<close>

fun or_empty :: "string option \<Rightarrow> string" where
  "or_empty None = []"
| "or_empty (Some s) = s"

text \<open>
  \<open>Number(x || 0)\<close> on an optional number: absent is 0. Numbers are rationals; NaN and
  the infinities, which JSON cannot carry and a range control cannot hold, are not
  modelled.
\<close>

fun number_or_0 :: "rat option \<Rightarrow> rat" where
  "number_or_0 None = 0"
| "number_or_0 (Some r) = r"

section \<open>Witness finder: data model\<close>

text \<open>
  A candidate as the search and saved endpoints return it. An optional field is
  \<open>None\<close> when absent or \<open>null\<close>; \<open>skills\<close> and \<open>links\<close> are the empty list
  when absent, which the source does not tell from an empty array.
\<close>

record candidate =
  id_c :: "string option"
  name :: string
  title :: "string option"
  organization :: "string option"
  sector :: "string option"
  location :: "string option"
  years_experience :: "rat option"
  similarity_score :: rat
  summary :: "string option"
  skills :: "string list"
  links :: "string list"

text \<open>
  A button element: its label and its \<open>disabled\<close> flag. Buttons are objects that a
  closure may keep after the card holding them has been replaced, so they live in a
  store (a list indexed by handle) and cards refer to them by handle.
\<close>

record button =
  textContent :: string
  disabled :: bool

text \<open>
  A result card, as far as the operations below read it back: the candidate it renders
  (every text node of the card is a function of it) and the handle of its save button.
\<close>

record card =
  card_candidate :: candidate
  saveBtn :: nat

text \<open>The four filter controls: the two range controls hold a number or nothing.\<close>

record filter_inputs =
  filterSimilarity :: "rat option"
  filterExperience :: "rat option"
  filterSector :: string
  filterLocation :: string

datatype request =
    SaveReq candidate
  | DeleteReq "string option"
  | FetchSavedReq
  | SearchReq string string "string option"

text \<open>
  What a \<open>fetch\<close> resolves to, as far as the handlers read it: the promise rejects
  (\<open>NetworkError\<close>), or there is a response with its \<open>ok\<close> flag and the outcome of
  \<open>response.json()\<close> (\<open>None\<close>: the body does not parse, the promise rejects).
\<close>

datatype 'a response = NetworkError | Response bool "'a option"

text \<open>
  The parsed body of the save and delete endpoints: \<open>null\<close>, on which reading
  \<open>data.status\<close> raises a TypeError, or any other value with its \<open>status\<close>
  when that is a string.
\<close>

datatype status_body = JNull | JData "string option"

text \<open>The parsed body of the saved list: an array (an entry may be \<open>null\<close>) or not.\<close>

datatype saved_body = NotArray | Array "candidate option list"

text \<open>
  What \<open>performSearch\<close> gives \<open>onSubmit\<close>: it throws with a message (the
  request or the parsing of a body rejected), the response is not ok and carries
  \<open>detail\<close> or not, or the body parsed, with \<open>data?.candidates\<close> when it is an
  array.
\<close>

datatype search_response =
    SearchThrows string
  | SearchNotOk "string option"
  | SearchOk "candidate list option"

text \<open>
  A suspended handler: what it closed over. \<open>handleSave\<close> keeps the candidate and the
  button it was called with.
\<close>

datatype pending =
    SaveP candidate "nat option"
  | DeleteP "string option"
  | FetchSavedP
  | SearchP

datatype error =
    FetchRejected
  | JsonRejected
  | TypeError
  | Failed string

text \<open>
  The module state \<open>state\<close> of the script together with the part of the page it
  writes. An element the source guards with a null test is optional here (\<open>None\<close>: the
  page has no such element); the filter controls and the saved-list toggle, which the
  source reads without a guard, are taken present. The saved cache is a JavaScript
  \<open>Map\<close>: an association list in insertion order. \<open>inflight\<close> holds the handlers
  suspended on a request not yet answered, \<open>sent\<close> every request ever sent.
\<close>

record ui =
  loading :: bool
  results :: "candidate list"
  filtered :: "candidate list"
  saved :: "(string option \<times> candidate) list"
  filters :: filter_inputs
  toastContainer :: "string list option"
  console :: "error list"
  buttons :: "button list"
  resultsEl :: "card list option"
  emptyEl :: "bool option"
  savedListEl :: "(candidate list \<times> bool) option"
  savedEmptyEl :: "bool option"
  aria_expanded :: bool
  errorEl :: "(bool \<times> string) option"
  statusEl :: "string option"
  loadingEl :: "bool option"
  formHidden :: bool
  submitDisabled :: bool
  focused :: "string option"
  inflight :: "pending list"
  sent :: "request list"

section \<open>Witness finder: rendering and filtering\<close>

definition showToast :: "string \<Rightarrow> ui \<Rightarrow> ui" where
  "showToast message s =
     (case toastContainer s of
        None \<Rightarrow> s
      | Some ts \<Rightarrow> s\<lparr>toastContainer := Some (ts @ [message])\<rparr>)"

definition renderEmptyState :: "ui \<Rightarrow> ui" where
  "renderEmptyState s =
     (case emptyEl s of
        None \<Rightarrow> s
      | Some _ \<Rightarrow>
          (let showEmpty = (length (results s) > 0 \<and> length (filtered s) = 0)
           in s\<lparr>emptyEl := Some (\<not> showEmpty)\<rparr>))"

text \<open>
  One card of \<open>renderResults\<close>: a fresh save button, labelled and disabled according to
  whether the candidate's id is a key of the saved cache.
\<close>

definition has_key :: "(string option \<times> candidate) list \<Rightarrow> string option \<Rightarrow> bool" where
  "has_key m k = (k \<in> set (map fst m))"

fun render_cards :: "(string option \<times> candidate) list \<Rightarrow> candidate list \<Rightarrow>
    button list \<Rightarrow> card list \<Rightarrow> button list \<times> card list" where
  "render_cards m [] bs cs = (bs, cs)"
| "render_cards m (c # rest) bs cs =
     (let isSaved = has_key m (id_c c);
          b = \<lparr>textContent = (if isSaved then ''Saved'' else ''Save''), disabled = isSaved\<rparr>
      in render_cards m rest (bs @ [b])
           (cs @ [\<lparr>card_candidate = c, saveBtn = length bs\<rparr>]))"

definition renderResults :: "ui \<Rightarrow> ui" where
  "renderResults s =
     (case resultsEl s of
        None \<Rightarrow> s
      | Some _ \<Rightarrow>
          (let (bs, cs) = render_cards (saved s) (filtered s) (buttons s) []
           in renderEmptyState (s\<lparr>buttons := bs, resultsEl := Some cs\<rparr>)))"

text \<open>The predicate of the \<open>filter\<close> callback, in the order of its early returns.\<close>

definition keep ::
    "(string \<Rightarrow> string) \<Rightarrow> rat \<Rightarrow> rat \<Rightarrow> string \<Rightarrow> string \<Rightarrow> candidate \<Rightarrow> bool" where
  "keep lc minSimilarity minExperience sectorQuery locationQuery c =
     (if similarity_score c < minSimilarity then False
      else let years = number_or_0 (years_experience c) in
        if years < minExperience then False
        else if sectorQuery \<noteq> [] \<and>
                \<not> includes_str (toLowerCase lc (or_empty (sector c))) sectorQuery
          then False
        else if locationQuery \<noteq> [] \<and>
                \<not> includes_str (toLowerCase lc (or_empty (location c))) locationQuery
          then False
        else True)"

definition applyFilters :: "(string \<Rightarrow> string) \<Rightarrow> ui \<Rightarrow> ui" where
  "applyFilters lc s =
     (let minSimilarity = number_or_0 (filterSimilarity (filters s));
          minExperience = number_or_0 (filterExperience (filters s));
          sectorQuery = toLowerCase lc (trim (filterSector (filters s)));
          locationQuery = toLowerCase lc (trim (filterLocation (filters s)))
      in renderResults
           (s\<lparr>filtered :=
                filter (keep lc minSimilarity minExperience sectorQuery locationQuery)
                  (results s)\<rparr>))"

section \<open>Witness finder: the save and delete reconciler\<close>

definition renderSaved :: "ui \<Rightarrow> ui" where
  "renderSaved s =
     (case (savedListEl s, savedEmptyEl s) of
        (Some _, Some _) \<Rightarrow>
          (let savedValues = map snd (saved s) in
           if savedValues = []
           then s\<lparr>savedListEl := Some ([], True), savedEmptyEl := Some False\<rparr>
           else s\<lparr>savedEmptyEl := Some True,
                  savedListEl := Some (savedValues, \<not> aria_expanded s)\<rparr>)
      | _ \<Rightarrow> s)"

definition send :: "request \<Rightarrow> pending \<Rightarrow> ui \<Rightarrow> ui" where
  "send r p s = s\<lparr>inflight := inflight s @ [p], sent := sent s @ [r]\<rparr>"

definition settle :: "pending \<Rightarrow> ui \<Rightarrow> ui" where
  "settle p s = s\<lparr>inflight := remove1 p (inflight s)\<rparr>"

text \<open>
  \<open>handleSave\<close> is cut at its \<open>await\<close>: \<open>handleSave_send\<close> runs up to the
  \<open>fetch\<close>, \<open>handleSave_resolve\<close> is the rest of the body, run when the request is
  answered. \<open>save_catch\<close> is the \<open>catch\<close> block.
\<close>

definition handleSave_send :: "candidate \<Rightarrow> nat option \<Rightarrow> ui \<Rightarrow> ui" where
  "handleSave_send c b s = send (SaveReq c) (SaveP c b) s"

definition save_catch :: "error \<Rightarrow> ui \<Rightarrow> ui" where
  "save_catch e s = showToast ''Unable to save candidate.'' (s\<lparr>console := console s @ [e]\<rparr>)"

definition mark_saved :: "nat option \<Rightarrow> ui \<Rightarrow> ui" where
  "mark_saved b s =
     (case b of
        None \<Rightarrow> s
      | Some h \<Rightarrow> s\<lparr>buttons := (buttons s)[h := \<lparr>textContent = ''Saved'', disabled = True\<rparr>]\<rparr>)"

definition handleSave_resolve ::
    "candidate \<Rightarrow> nat option \<Rightarrow> status_body response \<Rightarrow> ui \<Rightarrow> ui" where
  "handleSave_resolve c b r s0 =
     (let s = settle (SaveP c b) s0 in
      case r of
        NetworkError \<Rightarrow> save_catch FetchRejected s
      | Response ok body \<Rightarrow>
          if \<not> ok then save_catch (Failed ''Failed to save'') s
          else (case body of
              None \<Rightarrow> save_catch JsonRejected s
            | Some data \<Rightarrow>
                (let s1 = s\<lparr>saved := AList.update (id_c c) c (saved s)\<rparr> in
                 case data of
                   JNull \<Rightarrow> save_catch TypeError s1
                 | JData st \<Rightarrow>
                     renderSaved (mark_saved b
                       (showToast (if st = Some ''duplicate'' then ''Already saved.''
                                   else ''Candidate saved.'') s1)))))"

definition handleDelete_send :: "string option \<Rightarrow> ui \<Rightarrow> ui" where
  "handleDelete_send candidateId s = send (DeleteReq candidateId) (DeleteP candidateId) s"

definition delete_catch :: "error \<Rightarrow> ui \<Rightarrow> ui" where
  "delete_catch e s =
     showToast ''Unable to remove candidate.'' (s\<lparr>console := console s @ [e]\<rparr>)"

definition handleDelete_resolve ::
    "(string \<Rightarrow> string) \<Rightarrow> string option \<Rightarrow> status_body response \<Rightarrow> ui \<Rightarrow> ui" where
  "handleDelete_resolve lc candidateId r s0 =
     (let s = settle (DeleteP candidateId) s0 in
      case r of
        NetworkError \<Rightarrow> delete_catch FetchRejected s
      | Response ok body \<Rightarrow>
          if \<not> ok then delete_catch (Failed ''Failed to delete'') s
          else (case body of
              None \<Rightarrow> delete_catch JsonRejected s
            | Some JNull \<Rightarrow> delete_catch TypeError s
            | Some (JData st) \<Rightarrow>
                if st = Some ''ok''
                then applyFilters lc (renderSaved (showToast ''Removed from saved.''
                       (s\<lparr>saved := AList.delete candidateId (saved s)\<rparr>)))
                else s))"

definition fetchSaved_send :: "ui \<Rightarrow> ui" where
  "fetchSaved_send s = send FetchSavedReq FetchSavedP s"

fun insert_saved :: "(string option \<times> candidate) list \<Rightarrow> candidate option \<Rightarrow>
    (string option \<times> candidate) list" where
  "insert_saved m None = m"
| "insert_saved m (Some c) = (if truthy_str (id_c c) then AList.update (id_c c) c m else m)"

definition fetchSaved_resolve :: "saved_body response \<Rightarrow> ui \<Rightarrow> ui" where
  "fetchSaved_resolve r s0 =
     (let s = settle FetchSavedP s0 in
      case r of
        NetworkError \<Rightarrow> s\<lparr>console := console s @ [FetchRejected]\<rparr>
      | Response ok body \<Rightarrow>
          if \<not> ok then s\<lparr>console := console s @ [Failed ''Failed to fetch saved'']\<rparr>
          else (case body of
              None \<Rightarrow> s\<lparr>console := console s @ [JsonRejected]\<rparr>
            | Some NotArray \<Rightarrow> renderSaved s
            | Some (Array data) \<Rightarrow> renderSaved (s\<lparr>saved := foldl insert_saved (saved s) data\<rparr>)))"

text \<open>
  The browser's part of a click on the save button of the \<open>i\<close>-th result card: a
  disabled button dispatches no click event, an enabled one runs the listener that
  \<open>renderResults\<close> attached, \<open>handleSave(candidate, saveBtn)\<close>.
\<close>

definition click_save :: "nat \<Rightarrow> ui \<Rightarrow> ui" where
  "click_save i s =
     (case resultsEl s of
        None \<Rightarrow> s
      | Some cs \<Rightarrow>
          if i < length cs \<and> saveBtn (cs ! i) < length (buttons s)
          then (if disabled (buttons s ! saveBtn (cs ! i)) then s
                else handleSave_send (card_candidate (cs ! i)) (Some (saveBtn (cs ! i))) s)
          else s)"

text \<open>A click on the Remove button of the \<open>i\<close>-th saved card.\<close>

definition click_remove :: "nat \<Rightarrow> ui \<Rightarrow> ui" where
  "click_remove i s =
     (case savedListEl s of
        None \<Rightarrow> s
      | Some (cs, _) \<Rightarrow> if i < length cs then handleDelete_send (id_c (cs ! i)) s else s)"

definition toggleSaved :: "ui \<Rightarrow> ui" where
  "toggleSaved s =
     (case savedListEl s of
        None \<Rightarrow> s
      | Some (cs, _) \<Rightarrow>
          s\<lparr>aria_expanded := \<not> aria_expanded s, savedListEl := Some (cs, aria_expanded s)\<rparr>)"

text \<open>\<open>handleFilters\<close>, after the user has set the controls to \<open>fi\<close>.\<close>

definition handleFilters :: "(string \<Rightarrow> string) \<Rightarrow> filter_inputs \<Rightarrow> ui \<Rightarrow> ui" where
  "handleFilters lc fi s = applyFilters lc (s\<lparr>filters := fi\<rparr>)"

section \<open>Witness finder: the search form\<close>

fun string_of_nat :: "nat \<Rightarrow> string" where
  "string_of_nat n =
     (if n < 10 then [char_of (48 + n)]
      else string_of_nat (n div 10) @ [char_of (48 + n mod 10)])"

definition updateStatus :: "string \<Rightarrow> ui \<Rightarrow> ui" where
  "updateStatus message s =
     (case statusEl s of None \<Rightarrow> s | Some _ \<Rightarrow> s\<lparr>statusEl := Some message\<rparr>)"

text \<open>
  \<open>startLoading\<close> and \<open>stopLoading\<close> without the progress bar and the countdown,
  which write only their own elements. The callback \<open>stopLoading\<close> schedules is
  \<open>stopLoading_timeout\<close>; \<open>''input''\<close> names the first input of the form.
\<close>

definition startLoading :: "ui \<Rightarrow> ui" where
  "startLoading s =
     (case loadingEl s of
        None \<Rightarrow> s
      | Some _ \<Rightarrow>
          (let s1 = s\<lparr>loading := True, formHidden := True, loadingEl := Some False,
                       submitDisabled := True\<rparr>
           in case errorEl s1 of
                None \<Rightarrow> s1
              | Some _ \<Rightarrow> s1\<lparr>errorEl := Some (True, [])\<rparr>))"

definition stopLoading :: "ui \<Rightarrow> ui" where
  "stopLoading s = s\<lparr>loading := False, submitDisabled := False\<rparr>"

definition stopLoading_timeout :: "bool \<Rightarrow> ui \<Rightarrow> ui" where
  "stopLoading_timeout success s =
     (let s1 = (case loadingEl s of None \<Rightarrow> s | Some _ \<Rightarrow> s\<lparr>loadingEl := Some True\<rparr>);
          s2 = s1\<lparr>formHidden := False\<rparr>
      in if \<not> success then s2\<lparr>focused := Some ''input''\<rparr> else s2)"

text \<open>
  \<open>onSubmit\<close> up to its \<open>await\<close>, on the values of the three form fields; the
  ellipsis of the status line is its three UTF-8 bytes.
\<close>

definition onSubmit :: "string \<Rightarrow> string \<Rightarrow> string \<Rightarrow> ui \<Rightarrow> ui" where
  "onSubmit industry0 description0 name0 s =
     (if loading s then s
      else
        let industry = trim industry0;
            description = trim description0;
            name1 = trim name0
        in if industry = [] \<or> description = []
           then (case errorEl s of
                   None \<Rightarrow> s
                 | Some _ \<Rightarrow>
                     s\<lparr>errorEl := Some (False, ''Industry and description are required.'')\<rparr>)
           else send (SearchReq industry description (if name1 \<noteq> [] then Some name1 else None))
                  SearchP
                  (updateStatus
                     (''Searching the web for expert witnesses'' @ [CHR 0xE2, CHR 0x80, CHR 0xA6])
                     (startLoading s)))"

definition search_catch :: "string \<Rightarrow> ui \<Rightarrow> ui" where
  "search_catch message s =
     (let s1 = s\<lparr>console := console s @ [Failed message]\<rparr>;
          s2 = (case errorEl s1 of
                  None \<Rightarrow> s1
                | Some _ \<Rightarrow>
                    s1\<lparr>errorEl := Some (False, if message \<noteq> [] then message
                                               else ''Search failed. Please try again.'')\<rparr>)
      in stopLoading (updateStatus ''Search failed. Please try again.'' s2))"

definition onSubmit_resolve :: "(string \<Rightarrow> string) \<Rightarrow> search_response \<Rightarrow> ui \<Rightarrow> ui" where
  "onSubmit_resolve lc r s0 =
     (let s = settle SearchP s0 in
      case r of
        SearchThrows m \<Rightarrow> search_catch m s
      | SearchNotOk detail \<Rightarrow>
          search_catch (if truthy_str detail then or_empty detail else ''Search failed.'') s
      | SearchOk data \<Rightarrow>
          (let candidates = (case data of None \<Rightarrow> [] | Some cs \<Rightarrow> cs);
               s1 = applyFilters lc (s\<lparr>results := candidates\<rparr>);
               n = length candidates
           in stopLoading
                (updateStatus
                   (if n \<noteq> 0
                    then ''Found '' @ string_of_nat n @ '' candidate'' @
                         (if n = 1 then [] else ''s'') @ ''.''
                    else ''No candidates returned. Try refining your query.'')
                   s1)))"

section \<open>Witness finder: copying a candidate\<close>

fun join :: "string \<Rightarrow> string list \<Rightarrow> string" where
  "join sep [] = []"
| "join sep [x] = x"
| "join sep (x # y # ys) = x @ sep @ join sep (y # ys)"

text \<open>
  The array of \<open>copyCandidate\<close> before \<open>filter(Boolean)\<close>, the lines that survive it
  and the text written to the clipboard. \<open>fmt\<close> is the conversion of a number to a
  string that a template literal applies.
\<close>

definition copy_entries :: "(rat \<Rightarrow> string) \<Rightarrow> candidate \<Rightarrow> string list" where
  "copy_entries fmt c =
     [''Name: '' @ name c,
      if truthy_str (title c) then ''Title: '' @ or_empty (title c) else [],
      if truthy_str (organization c) then ''Organization: '' @ or_empty (organization c) else [],
      if truthy_str (sector c) then ''Sector: '' @ or_empty (sector c) else [],
      if truthy_str (location c) then ''Location: '' @ or_empty (location c) else [],
      case years_experience c of
        Some y \<Rightarrow> ''Years experience: '' @ fmt y
      | None \<Rightarrow> [],
      ''Similarity: '' @ fmt (similarity_score c) @ ''%'',
      if truthy_str (summary c) then ''Summary: '' @ or_empty (summary c) else [],
      if skills c \<noteq> [] then ''Skills: '' @ join '', '' (skills c) else [],
      if links c \<noteq> [] then ''Links: '' @ join '', '' (links c) else []]"

definition copy_lines :: "(rat \<Rightarrow> string) \<Rightarrow> candidate \<Rightarrow> string list" where
  "copy_lines fmt c = filter (\<lambda>l. l \<noteq> []) (copy_entries fmt c)"

definition copyCandidate :: "(rat \<Rightarrow> string) \<Rightarrow> candidate \<Rightarrow> string" where
  "copyCandidate fmt c = join [CHR 0x0A] (copy_lines fmt c)"

section \<open>Witness finder: the event loop\<close>

datatype event =
    ClickSave nat
  | SaveAnswered candidate "nat option" "status_body response"
  | ClickRemove nat
  | DeleteAnswered "string option" "status_body response"
  | SavedAnswered "saved_body response"
  | Submit string string string
  | SearchAnswered search_response
  | StopLoadingTimeout bool
  | FilterInput filter_inputs
  | ToggleSaved

fun step :: "(string \<Rightarrow> string) \<Rightarrow> event \<Rightarrow> ui \<Rightarrow> ui" where
  "step lc (ClickSave i) s = click_save i s"
| "step lc (SaveAnswered c b r) s = handleSave_resolve c b r s"
| "step lc (ClickRemove i) s = click_remove i s"
| "step lc (DeleteAnswered k r) s = handleDelete_resolve lc k r s"
| "step lc (SavedAnswered r) s = fetchSaved_resolve r s"
| "step lc (Submit i d n) s = onSubmit i d n s"
| "step lc (SearchAnswered r) s = onSubmit_resolve lc r s"
| "step lc (StopLoadingTimeout b) s = stopLoading_timeout b s"
| "step lc (FilterInput fi) s = handleFilters lc fi s"
| "step lc ToggleSaved s = toggleSaved s"

text \<open>An answer can only arrive for a handler that is suspended.\<close>

fun enabled :: "event \<Rightarrow> ui \<Rightarrow> bool" where
  "enabled (SaveAnswered c b r) s = (SaveP c b \<in> set (inflight s))"
| "enabled (DeleteAnswered k r) s = (DeleteP k \<in> set (inflight s))"
| "enabled (SavedAnswered r) s = (FetchSavedP \<in> set (inflight s))"
| "enabled (SearchAnswered r) s = (SearchP \<in> set (inflight s))"
| "enabled _ s = True"

text \<open>
  The state when the script has loaded, whatever the page holds, and \<open>init\<close>, which
  calls \<open>fetchSaved\<close>.
\<close>

definition fresh :: "ui \<Rightarrow> bool" where
  "fresh s = (\<not> loading s \<and> results s = [] \<and> filtered s = [] \<and> saved s = [] \<and>
              inflight s = [] \<and> sent s = [] \<and> console s = [] \<and> buttons s = [])"

definition init :: "ui \<Rightarrow> ui" where
  "init s = fetchSaved_send s"

inductive reachable :: "(string \<Rightarrow> string) \<Rightarrow> ui \<Rightarrow> bool" for lc where
  reachable_init: "fresh s \<Longrightarrow> reachable lc (init s)"
| reachable_step: "reachable lc s \<Longrightarrow> enabled e s \<Longrightarrow> reachable lc (step lc e s)"

section \<open>Issue spotter\<close>

text \<open>
  The fields of a finding and of a citation come from the analysis service as JSON:
  absent, a number or a string. \<open>fmt\<close> is again the number-to-string conversion.
\<close>

datatype jsval = Undefined | Num rat | Str string

fun truthy :: "jsval \<Rightarrow> bool" where
  "truthy Undefined = False"
| "truthy (Num r) = (r \<noteq> 0)"
| "truthy (Str s) = (s \<noteq> [])"

fun to_string :: "(rat \<Rightarrow> string) \<Rightarrow> jsval \<Rightarrow> string" where
  "to_string fmt Undefined = ''undefined''"
| "to_string fmt (Num r) = fmt r"
| "to_string fmt (Str s) = s"

text \<open>\<open>s.replace(/c/g, rep)\<close> for a single character \<open>c\<close>.\<close>

definition replace_all :: "char \<Rightarrow> string \<Rightarrow> string \<Rightarrow> string" where
  "replace_all c rep s = concat (map (\<lambda>x. if x = c then rep else [x]) s)"

text \<open>The five replacements of \<open>escapeHtml\<close>, in the order of the source.\<close>

definition escape_chain :: "string \<Rightarrow> string" where
  "escape_chain s =
     replace_all (CHR 0x27) ''&#039;''
       (replace_all (CHR 0x22) ''&quot;''
         (replace_all CHR ''>'' ''&gt;''
           (replace_all CHR ''<'' ''&lt;''
             (replace_all CHR ''&'' ''&amp;'' s))))"

definition escapeHtml :: "(rat \<Rightarrow> string) \<Rightarrow> jsval \<Rightarrow> string" where
  "escapeHtml fmt v = escape_chain (to_string fmt (if truthy v then v else Str []))"

record span =
  page :: jsval
  start :: jsval
  end_s :: jsval

record finding =
  issue :: jsval
  risk :: jsval
  suggestion :: jsval
  span_f :: "span option"

record citation =
  page_c :: jsval
  snippet :: jsval

text \<open>
  A rendered element: its tag and either the text set through \<open>textContent\<close> or the
  markup set through \<open>innerHTML\<close>.
\<close>

datatype node = Text string string | Html string string

datatype rendered = Markup string | Children "node list list"

definition bullet :: string where
  "bullet = [CHR 0x20, CHR 0xE2, CHR 0x80, CHR 0xA2, CHR 0x20]"

definition span_parts :: "(rat \<Rightarrow> string) \<Rightarrow> span \<Rightarrow> string list" where
  "span_parts fmt sp =
     (if truthy (page sp) then [''Page '' @ to_string fmt (page sp)] else []) @
     (if truthy (start sp) \<or> truthy (end_s sp)
      then [''Chars '' @ (if truthy (start sp) then to_string fmt (start sp) else ''?'') @ ''-'' @
            (if truthy (end_s sp) then to_string fmt (end_s sp) else ''?'')]
      else [])"

definition render_finding :: "(rat \<Rightarrow> string) \<Rightarrow> nat \<Rightarrow> finding \<Rightarrow> node list" where
  "render_finding fmt index item =
     [Text ''h3'' (if truthy (issue item) then to_string fmt (issue item)
                   else ''Finding '' @ string_of_nat (index + 1))] @
     (if truthy (risk item)
      then [Html ''p'' (''<strong>Risk:</strong> '' @ escapeHtml fmt (risk item))] else []) @
     (if truthy (suggestion item)
      then [Html ''p'' (''<strong>Suggestion:</strong> '' @ escapeHtml fmt (suggestion item))]
      else []) @
     (case span_f item of
        None \<Rightarrow> []
      | Some sp \<Rightarrow>
          if truthy (page sp) \<or> truthy (start sp) \<or> truthy (end_s sp)
          then [Html ''p'' (''<strong>Span:</strong> '' @
                  escapeHtml fmt (Str (join bullet (span_parts fmt sp))))]
          else [])"

definition renderFindings :: "(rat \<Rightarrow> string) \<Rightarrow> finding list \<Rightarrow> rendered" where
  "renderFindings fmt items =
     (if items = [] then Markup (''<p class='' @ [CHR 0x22] @ ''empty'' @ [CHR 0x22] @
                                  ''>No findings returned.</p>'')
      else Children (map (\<lambda>(index, item). render_finding fmt index item)
                       (enumerate 0 items)))"

definition pageLabel :: "(rat \<Rightarrow> string) \<Rightarrow> citation \<Rightarrow> string" where
  "pageLabel fmt item =
     (if truthy (page_c item) then ''Page '' @ to_string fmt (page_c item) else ''Location'')"

definition render_citation :: "(rat \<Rightarrow> string) \<Rightarrow> citation \<Rightarrow> node list" where
  "render_citation fmt item =
     [Html ''article'' (''<strong>'' @ escapeHtml fmt (Str (pageLabel fmt item)) @
        '':</strong> '' @
        escapeHtml fmt (if truthy (snippet item) then snippet item else Str []))]"

definition renderCitations :: "(rat \<Rightarrow> string) \<Rightarrow> citation list \<Rightarrow> rendered" where
  "renderCitations fmt items =
     (if items = [] then Markup (''<p class='' @ [CHR 0x22] @ ''empty'' @ [CHR 0x22] @
                                  ''>No citations returned.</p>'')
      else Children (map (render_citation fmt) items))"

text \<open>The issue-spotter form: what its submit handler reads and writes before it awaits.\<close>

datatype spotter_request =
    Upload string bool "string option"
  | TextReq string string "string option" bool

record spotter =
  errorEl_is :: "(bool \<times> string) option"
  statusEl_is :: "string option"
  submitBtn_disabled :: bool
  focused_is :: "string option"
  sent_is :: "spotter_request list"

definition showError :: "string \<Rightarrow> spotter \<Rightarrow> spotter" where
  "showError message s =
     (case errorEl_is s of None \<Rightarrow> s | Some _ \<Rightarrow> s\<lparr>errorEl_is := Some (False, message)\<rparr>)"

definition clearError :: "spotter \<Rightarrow> spotter" where
  "clearError s =
     (case errorEl_is s of None \<Rightarrow> s | Some _ \<Rightarrow> s\<lparr>errorEl_is := Some (True, [])\<rparr>)"

definition updateStatus_is :: "string \<Rightarrow> spotter \<Rightarrow> spotter" where
  "updateStatus_is message s =
     (case statusEl_is s of None \<Rightarrow> s | Some _ \<Rightarrow> s\<lparr>statusEl_is := Some message\<rparr>)"

definition setLoading :: "bool \<Rightarrow> spotter \<Rightarrow> spotter" where
  "setLoading isLoading s = s\<lparr>submitBtn_disabled := isLoading\<rparr>"

definition submitAnalysis ::
    "bool \<Rightarrow> string \<Rightarrow> string \<Rightarrow> string \<Rightarrow> bool \<Rightarrow> spotter \<Rightarrow> spotter" where
  "submitAnalysis hasFile text_value instructionsValue styleValue wantsJson s =
     (if hasFile
      then s\<lparr>sent_is := sent_is s @
                [Upload instructionsValue wantsJson
                   (if styleValue \<noteq> [] then Some styleValue else None)]\<rparr>
      else s\<lparr>sent_is := sent_is s @
                [TextReq (trim text_value) instructionsValue
                   (if styleValue \<noteq> [] then Some styleValue else None) wantsJson]\<rparr>)"

definition submit_handler ::
    "bool \<Rightarrow> string \<Rightarrow> string \<Rightarrow> string \<Rightarrow> bool \<Rightarrow> spotter \<Rightarrow> spotter" where
  "submit_handler hasFile text_value instructions styleValue wantsJson s0 =
     (let s = clearError s0;
          textValue = trim text_value;
          instructionsValue = trim instructions
      in if \<not> hasFile \<and> textValue = []
         then (showError ''Upload a document or paste text to analyze.'' s)
                \<lparr>focused_is := Some ''fileInput''\<rparr>
         else if instructionsValue = []
         then (showError ''Instructions are required.'' s)
                \<lparr>focused_is := Some ''instructionsInput''\<rparr>
         else submitAnalysis hasFile text_value instructionsValue styleValue wantsJson
                (updateStatus_is (''Analyzing'' @ [CHR 0xE2, CHR 0x80, CHR 0xA6])
                   (setLoading True s)))"

section \<open>Tab controller\<close>

text \<open>
  A tab element with the attributes \<open>activateTab\<close> reads and writes, and a panel.
  A group is the list of its tabs; panels are found in the document by id, so two tabs
  naming the same panel share it.
\<close>

record tab =
  tab_id :: string
  aria_controls :: "string option"
  active :: bool
  aria_selected :: string
  tabindex :: string

record panel =
  panel_active :: bool
  hidden :: bool

record tabs_ui =
  tabGroups :: "string \<rightharpoonup> tab list"
  document :: "string \<rightharpoonup> panel"

text \<open>
  The body of the \<open>forEach\<close> of \<open>activateTab\<close>, for one tab: \<open>mark_tab\<close> is what
  it writes to the tab, \<open>panel_of\<close> the panel it looks up.
\<close>

definition mark_tab :: "string \<Rightarrow> tab \<Rightarrow> tab" where
  "mark_tab tabId t =
     (let isActive = (tab_id t = tabId)
      in t\<lparr>active := isActive,
            aria_selected := (if isActive then ''true'' else ''false''),
            tabindex := (if isActive then ''0'' else ''-1'')\<rparr>)"

definition panel_of :: "(string \<rightharpoonup> panel) \<Rightarrow> tab \<Rightarrow> panel option" where
  "panel_of doc t =
     (let controls = aria_controls t
      in if truthy_str controls then doc (or_empty controls) else None)"

definition activate_one ::
    "string \<Rightarrow> tab \<Rightarrow> (string \<rightharpoonup> panel) \<Rightarrow> tab \<times> (string \<rightharpoonup> panel)" where
  "activate_one tabId t doc =
     (let isActive = (tab_id t = tabId)
      in case panel_of doc t of
           None \<Rightarrow> (mark_tab tabId t, doc)
         | Some p \<Rightarrow>
             (mark_tab tabId t,
              doc(or_empty (aria_controls t) \<mapsto>
                    p\<lparr>panel_active := isActive, hidden := \<not> isActive\<rparr>)))"

fun activate_tabs ::
    "string \<Rightarrow> tab list \<Rightarrow> (string \<rightharpoonup> panel) \<Rightarrow> tab list \<times> (string \<rightharpoonup> panel)" where
  "activate_tabs tabId [] doc = ([], doc)"
| "activate_tabs tabId (t # ts) doc =
     (let (t1, doc1) = activate_one tabId t doc;
          (ts1, doc2) = activate_tabs tabId ts doc1
      in (t1 # ts1, doc2))"

definition activateTab :: "string \<Rightarrow> string \<Rightarrow> tabs_ui \<Rightarrow> tabs_ui" where
  "activateTab groupId tabId s =
     (case tabGroups s groupId of
        None \<Rightarrow> s
      | Some tabs \<Rightarrow>
          (let (tabs1, doc1) = activate_tabs tabId tabs (document s)
           in s\<lparr>tabGroups := (tabGroups s)(groupId \<mapsto> tabs1), document := doc1\<rparr>))"

section \<open>Specification predicates\<close>



text \<open>A tab is marked when it carries the class and the attribute; a panel shows when
  it exists and is not hidden.\<close>

definition marked :: "tab \<Rightarrow> bool" where
  "marked t = (active t \<and> aria_selected t = ''true'')"

definition panel_visible :: "(string \<rightharpoonup> panel) \<Rightarrow> tab \<Rightarrow> bool" where
  "panel_visible doc t = (case panel_of doc t of None \<Rightarrow> False | Some p \<Rightarrow> \<not> hidden p)"

text \<open>The tabs of a group are well formed when their ids differ and each names a panel
  of its own that the document holds.\<close>

definition wf_tabs :: "(string \<rightharpoonup> panel) \<Rightarrow> tab list \<Rightarrow> bool" where
  "wf_tabs doc tabs =
     (distinct (map tab_id tabs) \<and> distinct (map aria_controls tabs) \<and>
      list_all (\<lambda>t. panel_of doc t \<noteq> None) tabs)"

text \<open>The cache is keyed by id when every key is the id of the candidate stored under it.\<close>

definition keyed :: "(string option \<times> candidate) list \<Rightarrow> bool" where
  "keyed m = list_all (\<lambda>(k, c). id_c c = k) m"

text \<open>The HTML entity of a character: the five characters of markup have one, every
  other character stands for itself.\<close>

definition entity :: "char \<Rightarrow> string" where
  "entity x =
     (if x = CHR ''&'' then ''&amp;''
      else if x = CHR ''<'' then ''&lt;''
      else if x = CHR ''>'' then ''&gt;''
      else if x = CHR 0x22 then ''&quot;''
      else if x = CHR 0x27 then ''&#039;''
      else [x])"

text \<open>The strings that a list of rendered elements hands to the HTML parser.\<close>

fun markups :: "node list \<Rightarrow> string list" where
  "markups [] = []"
| "markups (Text tag s # ns) = markups ns"
| "markups (Html tag s # ns) = s # markups ns"

text \<open>A line of the copied summary for an optional field, and for a list field.\<close>

definition line_of :: "string \<Rightarrow> string option \<Rightarrow> string list" where
  "line_of label v = (if truthy_str v then [label @ or_empty v] else [])"

definition list_line :: "string \<Rightarrow> string list \<Rightarrow> string list" where
  "list_line label xs = (if xs \<noteq> [] then [label @ join '', '' xs] else [])"

section \<open>Example values\<close>

definition page0 :: ui where
  "page0 = \<lparr>loading = False, results = [], filtered = [], saved = [],
     filters = \<lparr>filterSimilarity = Some 0, filterExperience = Some 0,
                filterSector = [], filterLocation = []\<rparr>,
     toastContainer = Some [], console = [], buttons = [], resultsEl = Some [],
     emptyEl = Some True, savedListEl = Some ([], True), savedEmptyEl = Some False,
     aria_expanded = False, errorEl = Some (True, []), statusEl = Some [],
     loadingEl = Some True, formHidden = False, submitDisabled = False, focused = None,
     inflight = [], sent = []\<rparr>"

definition cand_a :: candidate where
  "cand_a = \<lparr>id_c = Some ''a'', name = ''Ann'', title = None, organization = None,
     sector = Some ''Pharma'', location = Some ''NY'', years_experience = Some 5,
     similarity_score = 90, summary = None, skills = [], links = []\<rparr>"

definition cand_b :: candidate where
  "cand_b = \<lparr>id_c = Some ''b'', name = ''Bob'', title = None, organization = None,
     sector = Some ''Tech'', location = Some ''CA'', years_experience = Some 1,
     similarity_score = 40, summary = None, skills = [], links = []\<rparr>"

text \<open>A case mapping for the examples, which are in ASCII: the letters A to Z.\<close>

definition lower_char :: "char \<Rightarrow> char" where
  "lower_char c =
     (let n = (of_char c :: nat) in if 65 \<le> n \<and> n \<le> 90 then char_of (n + 32) else c)"

definition lower_ascii :: "string \<Rightarrow> string" where
  "lower_ascii s = map lower_char s"

text \<open>A number format for the examples: the decimal digits of a natural number.\<close>

definition fmt_floor :: "rat \<Rightarrow> string" where
  "fmt_floor r = string_of_nat (nat \<lfloor>r\<rfloor>)"

definition cand_noname :: candidate where
  "cand_noname = cand_a\<lparr>name := []\<rparr>"

text \<open>The page after a search that returned candidate \<open>a\<close>; the page with \<open>a\<close> in the
  saved cache; the page after \<open>a\<close> was saved from its card.\<close>

definition shown_a :: ui where
  "shown_a = onSubmit_resolve lower_ascii (SearchOk (Some [cand_a]))
     (onSubmit ''pharma'' ''fda'' [] page0)"

definition saved_a :: ui where
  "saved_a = page0\<lparr>saved := [(Some ''a'', cand_a)]\<rparr>"

definition saved_shown :: ui where
  "saved_shown = handleSave_resolve cand_a (Some 0) (Response True (Some (JData (Some ''ok''))))
     (click_save 0 shown_a)"

definition finding0 :: finding where
  "finding0 = \<lparr>issue = Str ''Indemnity'', risk = Str ''<b>high</b> & rising'',
     suggestion = Undefined, span_f = Some \<lparr>page = Num 3, start = Undefined, end_s = Num 40\<rparr>\<rparr>"

definition spot0 :: spotter where
  "spot0 = \<lparr>errorEl_is = Some (True, []), statusEl_is = Some [], submitBtn_disabled = False,
     focused_is = None, sent_is = []\<rparr>"

definition tab_summary :: tab where
  "tab_summary = \<lparr>tab_id = ''tab-summary'', aria_controls = Some ''panel-summary'',
     active = True, aria_selected = ''true'', tabindex = ''0''\<rparr>"

definition tab_findings :: tab where
  "tab_findings = \<lparr>tab_id = ''tab-findings'', aria_controls = Some ''panel-findings'',
     active = False, aria_selected = ''false'', tabindex = ''-1''\<rparr>"

definition tabs0 :: tabs_ui where
  "tabs0 = \<lparr>tabGroups = [''results'' \<mapsto> [tab_summary, tab_findings]],
     document = [''panel-summary'' \<mapsto> \<lparr>panel_active = True, hidden = False\<rparr>,
                 ''panel-findings'' \<mapsto> \<lparr>panel_active = False, hidden = True\<rparr>]\<rparr>"

section \<open>The filter engine\<close>

lemma filtered_renderEmptyState: "filtered (renderEmptyState s) = filtered s"
  by (simp add: renderEmptyState_def Let_def split: option.splits)

lemma filtered_renderResults: "filtered (renderResults s) = filtered s"
  by (simp add: renderResults_def filtered_renderEmptyState split: option.splits prod.splits)



lemma trim_ascii:
  "trim [] = []" "trim '' pharma'' = ''pharma''" "trim ''fda'' = ''fda''"
  "trim ''find risks'' = ''find risks''"
  by code_simp+




section \<open>The tab controller\<close>

lemma fst_activate_one: "fst (activate_one tabId t doc) = mark_tab tabId t"
  by (simp add: activate_one_def Let_def split: option.splits)

lemma snd_activate_one:
  "snd (activate_one tabId t doc) =
     (case panel_of doc t of None \<Rightarrow> doc
      | Some p \<Rightarrow> doc(or_empty (aria_controls t) \<mapsto>
            p\<lparr>panel_active := (tab_id t = tabId), hidden := (tab_id t \<noteq> tabId)\<rparr>))"
  by (simp add: activate_one_def Let_def split: option.splits)

lemma activate_tabs_Cons:
  "activate_tabs tabId (t # ts) doc =
     (mark_tab tabId t # fst (activate_tabs tabId ts (snd (activate_one tabId t doc))),
      snd (activate_tabs tabId ts (snd (activate_one tabId t doc))))"
  by (simp add: case_prod_beta fst_activate_one)

lemma activate_tabs_fst: "fst (activate_tabs tabId ts doc) = map (mark_tab tabId) ts"
  by (induction ts arbitrary: doc) (simp_all add: activate_tabs_Cons del: activate_tabs.simps(2))

lemma panel_of_Some:
  "panel_of doc t = Some pn \<Longrightarrow> truthy_str (aria_controls t) \<and> doc (or_empty (aria_controls t)) = Some pn"
  by (simp add: panel_of_def Let_def split: if_splits)

lemma or_empty_inj:
  "truthy_str a \<Longrightarrow> truthy_str b \<Longrightarrow> or_empty a = or_empty b \<Longrightarrow> a = b"
  by (cases a; cases b) simp_all

lemma activate_tabs_dom:
  "(snd (activate_tabs tabId ts doc) p = None) = (doc p = None)"
  by (induction ts arbitrary: doc)
     (auto simp add: activate_tabs_Cons snd_activate_one simp del: activate_tabs.simps(2)
        split: option.splits dest: panel_of_Some)

lemma activate_tabs_other:
  "\<forall>t\<in>set ts. \<not> (truthy_str (aria_controls t) \<and> or_empty (aria_controls t) = p) \<Longrightarrow>
   snd (activate_tabs tabId ts doc) p = doc p"
  by (induction ts arbitrary: doc)
     (auto simp add: activate_tabs_Cons snd_activate_one panel_of_def Let_def
        simp del: activate_tabs.simps(2) split: option.splits if_splits)

lemma activate_tabs_ctrl:
  "distinct (map aria_controls ts) \<Longrightarrow> t \<in> set ts \<Longrightarrow> panel_of doc t = Some pn \<Longrightarrow>
   snd (activate_tabs tabId ts doc) (or_empty (aria_controls t)) =
     Some (pn\<lparr>panel_active := (tab_id t = tabId), hidden := (tab_id t \<noteq> tabId)\<rparr>)"
proof (induction ts arbitrary: doc pn)
  case Nil
  then show ?case by simp
next
  case (Cons x xs)
  let ?p = "or_empty (aria_controls t)"
  let ?doc1 = "snd (activate_one tabId x doc)"
  have tr: "truthy_str (aria_controls t)" and dp: "doc ?p = Some pn"
    using panel_of_Some [OF Cons.prems(3)] by simp_all
  show ?case
  proof (cases "t = x")
    case True
    have notin: "\<forall>u\<in>set xs. \<not> (truthy_str (aria_controls u) \<and> or_empty (aria_controls u) = ?p)"
    proof
      fix u assume u: "u \<in> set xs"
      show "\<not> (truthy_str (aria_controls u) \<and> or_empty (aria_controls u) = ?p)"
      proof
        assume "truthy_str (aria_controls u) \<and> or_empty (aria_controls u) = ?p"
        then have "aria_controls u = aria_controls t" using tr or_empty_inj by blast
        then have "aria_controls x \<in> aria_controls ` set xs" using u True by (metis imageI)
        then show False using Cons.prems(1) by simp
      qed
    qed
    have "snd (activate_tabs tabId (x # xs) doc) ?p = ?doc1 ?p"
      using activate_tabs_other [OF notin] by (simp add: activate_tabs_Cons del: activate_tabs.simps(2))
    also have "\<dots> = Some (pn\<lparr>panel_active := (tab_id t = tabId), hidden := (tab_id t \<noteq> tabId)\<rparr>)"
      using True Cons.prems(3) by (simp add: snd_activate_one)
    finally show ?thesis .
  next
    case False
    then have tin: "t \<in> set xs" using Cons.prems(2) by simp
    have neq: "aria_controls x \<noteq> aria_controls t"
      using Cons.prems(1) tin by auto
    have "?doc1 ?p = doc ?p"
    proof (cases "panel_of doc x")
      case None
      then show ?thesis by (simp add: snd_activate_one)
    next
      case (Some q)
      then have "truthy_str (aria_controls x)" using panel_of_Some by blast
      then have "or_empty (aria_controls x) \<noteq> ?p" using neq tr or_empty_inj by blast
      then show ?thesis using Some by (simp add: snd_activate_one)
    qed
    then have "panel_of ?doc1 t = Some pn"
      using tr dp by (simp add: panel_of_def Let_def)
    from Cons.IH [OF _ tin this] Cons.prems(1)
    show ?thesis by (simp add: activate_tabs_Cons del: activate_tabs.simps(2))
  qed
qed

lemma filter_id_single:
  "distinct (map f xs) \<Longrightarrow> a \<in> set (map f xs) \<Longrightarrow> map f (filter (\<lambda>x. f x = a) xs) = [a]"
proof (induction xs)
  case Nil
  then show ?case by simp
next
  case (Cons x xs)
  show ?case
  proof (cases "f x = a")
    case True
    then have "\<forall>y\<in>set xs. f y \<noteq> a" using Cons.prems(1) by (metis distinct.simps(2) imageI list.simps(9) set_map)
    then have "filter (\<lambda>x. f x = a) xs = []" by (simp add: filter_empty_conv)
    then show ?thesis using True by simp
  next
    case False
    then show ?thesis using Cons by auto
  qed
qed

lemma tab_id_mark_tab: "tab_id (mark_tab tabId t) = tab_id t"
  by (simp add: mark_tab_def Let_def)

lemma marked_mark_tab: "marked (mark_tab tabId t) = (tab_id t = tabId)"
  by (simp add: mark_tab_def marked_def Let_def)

lemma panel_of_mark_tab: "panel_of doc (mark_tab tabId t) = panel_of doc t"
  by (simp add: mark_tab_def panel_of_def Let_def)

lemma activate_tabs_all_hidden:
  "tabId \<notin> tab_id ` set ts \<Longrightarrow>
   \<exists>t\<in>set ts. truthy_str (aria_controls t) \<and> or_empty (aria_controls t) = q \<Longrightarrow>
   snd (activate_tabs tabId ts doc) q = Some p \<Longrightarrow> hidden p"
proof (induction ts arbitrary: doc)
  case Nil
  then show ?case by simp
next
  case (Cons x xs)
  let ?doc1 = "snd (activate_one tabId x doc)"
  have res: "snd (activate_tabs tabId xs ?doc1) q = Some p"
    using Cons.prems(3) by (simp add: activate_tabs_Cons del: activate_tabs.simps(2))
  show ?case
  proof (cases "\<exists>t\<in>set xs. truthy_str (aria_controls t) \<and> or_empty (aria_controls t) = q")
    case True
    from Cons.IH [OF _ True res] Cons.prems(1) show ?thesis by simp
  next
    case False
    then have x: "truthy_str (aria_controls x)" "or_empty (aria_controls x) = q"
      using Cons.prems(2) by auto
    have d1: "?doc1 q = Some p"
      using activate_tabs_other [of xs q tabId ?doc1] False res by simp
    have nx: "tab_id x \<noteq> tabId" using Cons.prems(1) by auto
    show ?thesis
    proof (cases "panel_of doc x")
      case None
      then have "doc q = None" using x by (simp add: panel_of_def Let_def)
      then show ?thesis using d1 None by (simp add: snd_activate_one)
    next
      case (Some p0)
      then show ?thesis using d1 x nx by (auto simp add: snd_activate_one)
    qed
  qed
qed

lemma tabGroups_activateTab:
  "tabGroups s groupId = Some tabs \<Longrightarrow>
   tabGroups (activateTab groupId tabId s) groupId = Some (map (mark_tab tabId) tabs)"
  by (simp add: activateTab_def case_prod_beta activate_tabs_fst)

lemma document_activateTab:
  "tabGroups s groupId = Some tabs \<Longrightarrow>
   document (activateTab groupId tabId s) = snd (activate_tabs tabId tabs (document s))"
  by (simp add: activateTab_def case_prod_beta)

lemma visible_after:
  assumes "distinct (map aria_controls ts)" "t \<in> set ts" "panel_of doc t \<noteq> None"
  shows "panel_visible (snd (activate_tabs tabId ts doc)) (mark_tab tabId t) = (tab_id t = tabId)"
proof -
  obtain pn where pn: "panel_of doc t = Some pn" using assms(3) by auto
  have tr: "truthy_str (aria_controls t)" using panel_of_Some [OF pn] by simp
  show ?thesis
    using activate_tabs_ctrl [OF assms(1,2) pn, of tabId] tr
    by (simp add: panel_visible_def panel_of_mark_tab) (simp add: panel_of_def Let_def)
qed

lemma hidden_after:
  assumes "tabId \<notin> tab_id ` set ts" "t \<in> set ts"
  shows "\<not> panel_visible (snd (activate_tabs tabId ts doc)) (mark_tab tabId t)"
proof (cases "panel_of (snd (activate_tabs tabId ts doc)) t")
  case None
  then show ?thesis by (simp add: panel_visible_def panel_of_mark_tab)
next
  case (Some p)
  then have tr: "truthy_str (aria_controls t)"
    and sp: "snd (activate_tabs tabId ts doc) (or_empty (aria_controls t)) = Some p"
    using panel_of_Some by blast+
  have "hidden p"
    by (rule activate_tabs_all_hidden [OF assms(1) _ sp]) (use assms(2) tr in blast)
  then show ?thesis using Some by (simp add: panel_visible_def panel_of_mark_tab)
qed

text \<open>
  C2, as stated, fails for a tab id that no tab of the group carries: the call is not a
  no-op, it leaves the group without a marked tab.
\<close>

theorem activateTab_unknown_tab_counterexample:
  "filter marked (the (tabGroups (activateTab ''results'' ''tab-missing'' tabs0) ''results'')) = [] \<and>
   activateTab ''results'' ''tab-missing'' tabs0 \<noteq> tabs0"
proof -
  have g: "tabGroups tabs0 ''results'' = Some [tab_summary, tab_findings]"
    by (simp add: tabs0_def)
  have a: "tabGroups (activateTab ''results'' ''tab-missing'' tabs0) ''results''
           = Some (map (mark_tab ''tab-missing'') [tab_summary, tab_findings])"
    by (rule tabGroups_activateTab [OF g])
  have b: "filter marked (map (mark_tab ''tab-missing'') [tab_summary, tab_findings]) = []"
    by (simp add: marked_mark_tab tab_summary_def tab_findings_def)
  have c: "tabGroups (activateTab ''results'' ''tab-missing'' tabs0) ''results''
           \<noteq> tabGroups tabs0 ''results''"
    unfolding a g by (simp add: mark_tab_def Let_def tab_summary_def tab_findings_def)
  from a b c show ?thesis by auto
qed

text \<open>
  C2 (amended): a call of \<open>activateTab\<close> with an unknown group id changes nothing. For a
  registered group the call keeps the tabs and marks exactly those whose id is the
  given one. So when the tabs of the group are well formed (distinct ids, each naming
  its own panel of the document) and the id is the id of one of them, exactly one tab
  of the group is marked, the named one, and exactly one of their panels shows, its
  panel; when no tab of the group carries the id, the call leaves no tab marked and no
  panel of the group showing. The function is total: no call raises.
\<close>

theorem activateTab_exactly_one:
  "(tabGroups s groupId = None \<longrightarrow> activateTab groupId tabId s = s) \<and>
   (\<forall>tabs. tabGroups s groupId = Some tabs \<longrightarrow>
      (\<exists>tabs1. tabGroups (activateTab groupId tabId s) groupId = Some tabs1 \<and>
         map tab_id tabs1 = map tab_id tabs \<and>
         (\<forall>t\<in>set tabs1. marked t = (tab_id t = tabId)) \<and>
         (wf_tabs (document s) tabs \<and> tabId \<in> set (map tab_id tabs) \<longrightarrow>
            map tab_id (filter marked tabs1) = [tabId] \<and>
            map tab_id (filter (panel_visible (document (activateTab groupId tabId s))) tabs1)
              = [tabId]) \<and>
         (tabId \<notin> set (map tab_id tabs) \<longrightarrow>
            filter marked tabs1 = [] \<and>
            filter (panel_visible (document (activateTab groupId tabId s))) tabs1 = [])))"
proof (intro conjI allI impI)
  assume "tabGroups s groupId = None"
  then show "activateTab groupId tabId s = s" by (simp add: activateTab_def)
next
  fix tabs assume g: "tabGroups s groupId = Some tabs"
  let ?s1 = "activateTab groupId tabId s"
  let ?tabs1 = "map (mark_tab tabId) tabs"
  have doc: "document ?s1 = snd (activate_tabs tabId tabs (document s))"
    by (rule document_activateTab [OF g])
  have ids: "map tab_id ?tabs1 = map tab_id tabs"
    by (simp add: tab_id_mark_tab)
  have mk: "\<forall>t\<in>set ?tabs1. marked t = (tab_id t = tabId)"
    by (auto simp: marked_mark_tab tab_id_mark_tab)
  have fm: "filter marked ?tabs1 = map (mark_tab tabId) (filter (\<lambda>t. tab_id t = tabId) tabs)"
    by (simp add: filter_map o_def marked_mark_tab)
  have one: "map tab_id (filter marked ?tabs1) = [tabId] \<and>
             map tab_id (filter (panel_visible (document ?s1)) ?tabs1) = [tabId]"
    if wf: "wf_tabs (document s) tabs \<and> tabId \<in> set (map tab_id tabs)"
  proof -
    have d1: "distinct (map tab_id tabs)" and d2: "distinct (map aria_controls tabs)"
      and pn: "\<forall>t\<in>set tabs. panel_of (document s) t \<noteq> None"
      using wf by (simp_all add: wf_tabs_def list_all_iff)
    have single: "map tab_id (filter (\<lambda>t. tab_id t = tabId) tabs) = [tabId]"
      using filter_id_single [OF d1] wf by simp
    have fv: "filter (panel_visible (document ?s1)) ?tabs1 =
              map (mark_tab tabId) (filter (\<lambda>t. tab_id t = tabId) tabs)"
      unfolding doc filter_map o_def
      by (rule arg_cong [where f = "map (mark_tab tabId)"], rule filter_cong)
         (simp_all add: visible_after [OF d2] pn)
    show ?thesis using single by (simp add: fm fv o_def tab_id_mark_tab)
  qed
  have none: "filter marked ?tabs1 = [] \<and> filter (panel_visible (document ?s1)) ?tabs1 = []"
    if un: "tabId \<notin> set (map tab_id tabs)"
  proof -
    have a: "filter (\<lambda>t. tab_id t = tabId) tabs = []"
      using un by (auto simp: filter_empty_conv)
    have un': "tabId \<notin> tab_id ` set tabs" using un by simp
    have b: "filter (panel_visible (document ?s1)) ?tabs1 = []"
      unfolding doc by (auto simp: filter_empty_conv hidden_after [OF un'])
    show ?thesis using a b by (simp add: fm)
  qed
  show "\<exists>tabs1. tabGroups ?s1 groupId = Some tabs1 \<and>
         map tab_id tabs1 = map tab_id tabs \<and>
         (\<forall>t\<in>set tabs1. marked t = (tab_id t = tabId)) \<and>
         (wf_tabs (document s) tabs \<and> tabId \<in> set (map tab_id tabs) \<longrightarrow>
            map tab_id (filter marked tabs1) = [tabId] \<and>
            map tab_id (filter (panel_visible (document ?s1)) tabs1) = [tabId]) \<and>
         (tabId \<notin> set (map tab_id tabs) \<longrightarrow>
            filter marked tabs1 = [] \<and>
            filter (panel_visible (document ?s1)) tabs1 = [])"
  proof (intro exI conjI impI)
    show "tabGroups ?s1 groupId = Some ?tabs1" by (rule tabGroups_activateTab [OF g])
    show "map tab_id ?tabs1 = map tab_id tabs" by (rule ids)
    show "\<forall>t\<in>set ?tabs1. marked t = (tab_id t = tabId)" by (rule mk)
  qed (use one none in simp_all)
qed

text \<open>
  On the results group of the issue-spotter page: activating the findings tab leaves it the
  one marked tab with the one showing panel, and a call for a group that is not registered
  changes nothing.
\<close>

theorem activateTab_exactly_one_witness:
  "tabGroups tabs0 ''results'' = Some [tab_summary, tab_findings] \<and>
   wf_tabs (document tabs0) [tab_summary, tab_findings] \<and>
   ''tab-findings'' \<in> set (map tab_id [tab_summary, tab_findings]) \<and>
   (\<exists>tabs1. tabGroups (activateTab ''results'' ''tab-findings'' tabs0) ''results'' = Some tabs1 \<and>
      map tab_id (filter marked tabs1) = [''tab-findings''] \<and>
      map tab_id (filter (panel_visible
          (document (activateTab ''results'' ''tab-findings'' tabs0))) tabs1) = [''tab-findings'']) \<and>
   tabGroups tabs0 ''other'' = None \<and>
   activateTab ''other'' ''tab-findings'' tabs0 = tabs0"
proof -
  have g: "tabGroups tabs0 ''results'' = Some [tab_summary, tab_findings]"
    by (simp add: tabs0_def)
  have wf: "wf_tabs (document tabs0) [tab_summary, tab_findings]"
    by (simp add: wf_tabs_def tabs0_def tab_summary_def tab_findings_def panel_of_def)
  have m: "''tab-findings'' \<in> set (map tab_id [tab_summary, tab_findings])"
    by (simp add: tab_findings_def)
  have n: "tabGroups tabs0 ''other'' = None"
    by (simp add: tabs0_def)
  note h = activateTab_exactly_one [of tabs0 "''results''" "''tab-findings''",
      THEN conjunct2, THEN spec, THEN mp, OF g]
  then obtain tabs1 where
    t1: "tabGroups (activateTab ''results'' ''tab-findings'' tabs0) ''results'' = Some tabs1"
    and t2: "wf_tabs (document tabs0) [tab_summary, tab_findings] \<and>
         ''tab-findings'' \<in> set (map tab_id [tab_summary, tab_findings]) \<longrightarrow>
         map tab_id (filter marked tabs1) = [''tab-findings''] \<and>
         map tab_id (filter (panel_visible
           (document (activateTab ''results'' ''tab-findings'' tabs0))) tabs1) = [''tab-findings'']"
    by (elim exE conjE)
  from t2 wf m have t3: "map tab_id (filter marked tabs1) = [''tab-findings''] \<and>
         map tab_id (filter (panel_visible
           (document (activateTab ''results'' ''tab-findings'' tabs0))) tabs1) = [''tab-findings'']"
    by (elim impE) (rule conjI)
  from t1 t3
  have a: "\<exists>tabs1. tabGroups (activateTab ''results'' ''tab-findings'' tabs0) ''results''
        = Some tabs1 \<and>
      map tab_id (filter marked tabs1) = [''tab-findings''] \<and>
      map tab_id (filter (panel_visible
          (document (activateTab ''results'' ''tab-findings'' tabs0))) tabs1) = [''tab-findings'']"
    by (intro exI [of _ tabs1] conjI) (elim conjE, assumption)+
  from activateTab_exactly_one [of tabs0 "''other''" "''tab-findings''"] n
  have b: "activateTab ''other'' ''tab-findings'' tabs0 = tabs0"
    by (elim conjE impE)
  from g wf m a n b show ?thesis by (intro conjI)
qed

section \<open>The save and delete reconciler\<close>

subsection \<open>What each operation leaves alone\<close>

lemma showToast_fields [simp]:
  "saved (showToast m s) = saved s" "buttons (showToast m s) = buttons s"
  "console (showToast m s) = console s" "sent (showToast m s) = sent s"
  "inflight (showToast m s) = inflight s" "results (showToast m s) = results s"
  "filtered (showToast m s) = filtered s" "resultsEl (showToast m s) = resultsEl s"
  "savedListEl (showToast m s) = savedListEl s" "savedEmptyEl (showToast m s) = savedEmptyEl s"
  "focused (showToast m s) = focused s" "filters (showToast m s) = filters s"
  "aria_expanded (showToast m s) = aria_expanded s" "emptyEl (showToast m s) = emptyEl s"
  by (simp_all add: showToast_def split: option.splits)

lemma toastContainer_showToast:
  "toastContainer (showToast m s) = map_option (\<lambda>ts. ts @ [m]) (toastContainer s)"
  by (simp add: showToast_def split: option.splits)

lemma renderSaved_fields [simp]:
  "saved (renderSaved s) = saved s" "buttons (renderSaved s) = buttons s"
  "console (renderSaved s) = console s" "sent (renderSaved s) = sent s"
  "inflight (renderSaved s) = inflight s" "results (renderSaved s) = results s"
  "filtered (renderSaved s) = filtered s" "resultsEl (renderSaved s) = resultsEl s"
  "toastContainer (renderSaved s) = toastContainer s"
  "focused (renderSaved s) = focused s" "filters (renderSaved s) = filters s"
  "aria_expanded (renderSaved s) = aria_expanded s" "emptyEl (renderSaved s) = emptyEl s"
  by (simp_all add: renderSaved_def Let_def split: option.splits)

lemma mark_saved_fields [simp]:
  "saved (mark_saved b s) = saved s"
  "console (mark_saved b s) = console s" "sent (mark_saved b s) = sent s"
  "inflight (mark_saved b s) = inflight s" "results (mark_saved b s) = results s"
  "filtered (mark_saved b s) = filtered s" "resultsEl (mark_saved b s) = resultsEl s"
  "toastContainer (mark_saved b s) = toastContainer s"
  "savedListEl (mark_saved b s) = savedListEl s" "savedEmptyEl (mark_saved b s) = savedEmptyEl s"
  "focused (mark_saved b s) = focused s" "filters (mark_saved b s) = filters s"
  "aria_expanded (mark_saved b s) = aria_expanded s" "emptyEl (mark_saved b s) = emptyEl s"
  by (simp_all add: mark_saved_def split: option.splits)

lemma settle_fields [simp]:
  "saved (settle p s) = saved s" "buttons (settle p s) = buttons s"
  "console (settle p s) = console s" "sent (settle p s) = sent s"
  "results (settle p s) = results s"
  "filtered (settle p s) = filtered s" "resultsEl (settle p s) = resultsEl s"
  "toastContainer (settle p s) = toastContainer s"
  "savedListEl (settle p s) = savedListEl s" "savedEmptyEl (settle p s) = savedEmptyEl s"
  "focused (settle p s) = focused s" "filters (settle p s) = filters s"
  "aria_expanded (settle p s) = aria_expanded s" "emptyEl (settle p s) = emptyEl s"
  "inflight (settle p s) = remove1 p (inflight s)"
  by (simp_all add: settle_def)

lemma send_fields [simp]:
  "saved (send r p s) = saved s" "buttons (send r p s) = buttons s"
  "console (send r p s) = console s" "sent (send r p s) = sent s @ [r]"
  "results (send r p s) = results s"
  "filtered (send r p s) = filtered s" "resultsEl (send r p s) = resultsEl s"
  "toastContainer (send r p s) = toastContainer s"
  "savedListEl (send r p s) = savedListEl s" "savedEmptyEl (send r p s) = savedEmptyEl s"
  "focused (send r p s) = focused s" "filters (send r p s) = filters s"
  "inflight (send r p s) = inflight s @ [p]"
  by (simp_all add: send_def)

lemma save_catch_fields [simp]:
  "saved (save_catch e s) = saved s" "buttons (save_catch e s) = buttons s"
  "console (save_catch e s) = console s @ [e]" "sent (save_catch e s) = sent s"
  "inflight (save_catch e s) = inflight s" "results (save_catch e s) = results s"
  "filtered (save_catch e s) = filtered s" "resultsEl (save_catch e s) = resultsEl s"
  "savedListEl (save_catch e s) = savedListEl s" "focused (save_catch e s) = focused s"
  "toastContainer (save_catch e s) =
     map_option (\<lambda>ts. ts @ [''Unable to save candidate.'']) (toastContainer s)"
  by (simp_all add: save_catch_def toastContainer_showToast)

lemma renderEmptyState_fields [simp]:
  "saved (renderEmptyState s) = saved s" "buttons (renderEmptyState s) = buttons s"
  "console (renderEmptyState s) = console s" "sent (renderEmptyState s) = sent s"
  "inflight (renderEmptyState s) = inflight s" "results (renderEmptyState s) = results s"
  "resultsEl (renderEmptyState s) = resultsEl s"
  "toastContainer (renderEmptyState s) = toastContainer s"
  "savedListEl (renderEmptyState s) = savedListEl s"
  "savedEmptyEl (renderEmptyState s) = savedEmptyEl s"
  "focused (renderEmptyState s) = focused s" "filters (renderEmptyState s) = filters s"
  by (simp_all add: renderEmptyState_def Let_def split: option.splits)

lemma renderResults_fields [simp]:
  "saved (renderResults s) = saved s"
  "console (renderResults s) = console s" "sent (renderResults s) = sent s"
  "inflight (renderResults s) = inflight s" "results (renderResults s) = results s"
  "toastContainer (renderResults s) = toastContainer s"
  "savedListEl (renderResults s) = savedListEl s"
  "savedEmptyEl (renderResults s) = savedEmptyEl s"
  "focused (renderResults s) = focused s" "filters (renderResults s) = filters s"
  by (simp_all add: renderResults_def split: option.splits prod.splits)

lemma applyFilters_fields [simp]:
  "saved (applyFilters lc s) = saved s"
  "console (applyFilters lc s) = console s" "sent (applyFilters lc s) = sent s"
  "inflight (applyFilters lc s) = inflight s" "results (applyFilters lc s) = results s"
  "toastContainer (applyFilters lc s) = toastContainer s"
  "savedListEl (applyFilters lc s) = savedListEl s"
  "savedEmptyEl (applyFilters lc s) = savedEmptyEl s"
  "focused (applyFilters lc s) = focused s" "filters (applyFilters lc s) = filters s"
  by (simp_all add: applyFilters_def Let_def)

lemma delete_catch_fields [simp]:
  "saved (delete_catch e s) = saved s" "buttons (delete_catch e s) = buttons s"
  "console (delete_catch e s) = console s @ [e]" "sent (delete_catch e s) = sent s"
  "inflight (delete_catch e s) = inflight s" "results (delete_catch e s) = results s"
  "filtered (delete_catch e s) = filtered s" "resultsEl (delete_catch e s) = resultsEl s"
  "savedListEl (delete_catch e s) = savedListEl s" "focused (delete_catch e s) = focused s"
  "toastContainer (delete_catch e s) =
     map_option (\<lambda>ts. ts @ [''Unable to remove candidate.'']) (toastContainer s)"
  by (simp_all add: delete_catch_def toastContainer_showToast)

lemma saved_handleSave_resolve:
  "saved (handleSave_resolve c b r s) =
     (case r of Response True (Some _) \<Rightarrow> AList.update (id_c c) c (saved s) | _ \<Rightarrow> saved s)"
  by (simp add: handleSave_resolve_def Let_def split: response.splits option.splits status_body.splits bool.splits)

lemma saved_handleDelete_resolve:
  "saved (handleDelete_resolve lc k r s) =
     (if r = Response True (Some (JData (Some ''ok''))) then AList.delete k (saved s) else saved s)"
  by (simp add: handleDelete_resolve_def Let_def split: response.splits option.splits status_body.splits)

lemma saved_fetchSaved_resolve:
  "saved (fetchSaved_resolve r s) =
     (case r of Response True (Some (Array data)) \<Rightarrow> foldl insert_saved (saved s) data | _ \<Rightarrow> saved s)"
  by (simp add: fetchSaved_resolve_def Let_def split: response.splits option.splits saved_body.splits bool.splits)

lemma renderSaved_list:
  "savedListEl s \<noteq> None \<Longrightarrow> savedEmptyEl s \<noteq> None \<Longrightarrow>
   \<exists>h. savedListEl (renderSaved s) = Some (map snd (saved s), h)"
  by (auto simp: renderSaved_def Let_def)

subsection \<open>The save control\<close>

lemma render_cards_eq:
  "render_cards m cs bs acc =
     (bs @ map (\<lambda>c. \<lparr>textContent = (if has_key m (id_c c) then ''Saved'' else ''Save''),
                        disabled = has_key m (id_c c)\<rparr>) cs,
      acc @ map (\<lambda>(i, c). \<lparr>card_candidate = c, saveBtn = i\<rparr>) (enumerate (length bs) cs))"
  by (induction cs arbitrary: bs acc) (simp_all add: Let_def)

lemma renderResults_cards:
  assumes "resultsEl s \<noteq> None"
  shows "\<exists>cards. resultsEl (renderResults s) = Some cards \<and>
           map card_candidate cards = filtered s \<and>
           (\<forall>cd\<in>set cards. saveBtn cd < length (buttons (renderResults s)) \<and>
              disabled (buttons (renderResults s) ! saveBtn cd) =
                has_key (saved s) (id_c (card_candidate cd)))"
proof -
  let ?mk = "\<lambda>c. \<lparr>textContent = (if has_key (saved s) (id_c c) then ''Saved'' else ''Save''),
                   disabled = has_key (saved s) (id_c c)\<rparr>"
  let ?bs = "buttons s @ map ?mk (filtered s)"
  let ?cards = "map (\<lambda>(i, c). \<lparr>card_candidate = c, saveBtn = i\<rparr>)
                  (enumerate (length (buttons s)) (filtered s))"
  have r: "resultsEl (renderResults s) = Some ?cards"
    and b: "buttons (renderResults s) = ?bs"
    using assms by (auto simp: renderResults_def render_cards_eq)
  have m: "map card_candidate ?cards = filtered s"
    by (simp add: o_def case_prod_beta)
  have "saveBtn cd < length ?bs \<and>
        disabled (?bs ! saveBtn cd) = has_key (saved s) (id_c (card_candidate cd))"
    if "cd \<in> set ?cards" for cd
  proof -
    from that obtain i c where ic: "(i, c) \<in> set (enumerate (length (buttons s)) (filtered s))"
      and cd: "cd = \<lparr>card_candidate = c, saveBtn = i\<rparr>" by auto
    from ic have i: "length (buttons s) \<le> i" "i < length (buttons s) + length (filtered s)"
      and c: "c = filtered s ! (i - length (buttons s))"
      by (auto simp: in_set_enumerate_eq)
    show ?thesis using i c cd by (simp add: nth_append)
  qed
  with r b m show ?thesis by auto
qed

lemma shown_a_page:
  "resultsEl shown_a = Some [\<lparr>card_candidate = cand_a, saveBtn = 0\<rparr>]"
  "buttons shown_a = [\<lparr>textContent = ''Save'', disabled = False\<rparr>]"
  "sent shown_a = [SearchReq ''pharma'' ''fda'' None]"
  "saved shown_a = []" "toastContainer shown_a = Some []" "inflight shown_a = []"
  by code_simp+

lemma saved_shown_page:
  "resultsEl saved_shown = Some [\<lparr>card_candidate = cand_a, saveBtn = 0\<rparr>]"
  "buttons saved_shown = [\<lparr>textContent = ''Saved'', disabled = True\<rparr>]"
  "saved saved_shown = [(Some ''a'', cand_a)]"
  by code_simp+

text \<open>
  C3, as stated, fails: after a click on the save control of candidate \<open>a\<close> the request
  is in flight and the control is still enabled, and a second click sends the request a
  second time.
\<close>

theorem save_sent_twice_counterexample:
  "SaveP cand_a (Some 0) \<in> set (inflight (click_save 0 shown_a)) \<and>
   \<not> disabled (buttons (click_save 0 shown_a) ! 0) \<and>
   sent (click_save 0 (click_save 0 shown_a)) =
     [SearchReq ''pharma'' ''fda'' None, SaveReq cand_a, SaveReq cand_a]"
  by code_simp

text \<open>
  C3 (amended): the save control of a card is disabled when the card is rendered for a
  candidate whose id is a key of the saved cache, and once a save made through it has
  been answered with success; sending the request does not disable it. A click on a
  disabled control does nothing; a click on an enabled control sends a save request for
  the candidate and leaves every control as it was, so while the request is in flight
  a further click sends a further request.
\<close>

theorem save_control:
  "(resultsEl s = Some cs \<and> i < length cs \<and> saveBtn (cs ! i) < length (buttons s) \<longrightarrow>
      (disabled (buttons s ! saveBtn (cs ! i)) \<longrightarrow> click_save i s = s) \<and>
      (\<not> disabled (buttons s ! saveBtn (cs ! i)) \<longrightarrow>
         sent (click_save i s) = sent s @ [SaveReq (card_candidate (cs ! i))] \<and>
         inflight (click_save i s) =
           inflight s @ [SaveP (card_candidate (cs ! i)) (Some (saveBtn (cs ! i)))] \<and>
         buttons (click_save i s) = buttons s)) \<and>
   (h < length (buttons s) \<longrightarrow>
      disabled (buttons (handleSave_resolve c (Some h) (Response True (Some (JData st))) s) ! h)) \<and>
   (resultsEl s \<noteq> None \<longrightarrow>
      (\<exists>cards. resultsEl (renderResults s) = Some cards \<and>
           map card_candidate cards = filtered s \<and>
           (\<forall>cd\<in>set cards. saveBtn cd < length (buttons (renderResults s)) \<and>
              disabled (buttons (renderResults s) ! saveBtn cd) =
                has_key (saved s) (id_c (card_candidate cd)))))"
proof (intro conjI impI)
  assume "h < length (buttons s)"
  then show "disabled (buttons (handleSave_resolve c (Some h)
      (Response True (Some (JData st))) s) ! h)"
    by (simp add: handleSave_resolve_def Let_def mark_saved_def)
next
  assume "resultsEl s \<noteq> None"
  then show "\<exists>cards. resultsEl (renderResults s) = Some cards \<and>
           map card_candidate cards = filtered s \<and>
           (\<forall>cd\<in>set cards. saveBtn cd < length (buttons (renderResults s)) \<and>
              disabled (buttons (renderResults s) ! saveBtn cd) =
                has_key (saved s) (id_c (card_candidate cd)))"
    by (rule renderResults_cards)
qed (simp_all add: click_save_def handleSave_send_def)

text \<open>
  On the page showing candidate \<open>a\<close>: the first click sends the request and leaves the
  control enabled; after the save has succeeded the control is disabled and a click does
  nothing.
\<close>

theorem save_control_witness:
  "resultsEl shown_a = Some [\<lparr>card_candidate = cand_a, saveBtn = 0\<rparr>] \<and>
   \<not> disabled (buttons shown_a ! 0) \<and>
   sent (click_save 0 shown_a) = [SearchReq ''pharma'' ''fda'' None, SaveReq cand_a] \<and>
   inflight (click_save 0 shown_a) = [SaveP cand_a (Some 0)] \<and>
   \<not> disabled (buttons (click_save 0 shown_a) ! 0) \<and>
   disabled (buttons saved_shown ! 0) \<and>
   click_save 0 saved_shown = saved_shown"
proof -
  note a = save_control [of shown_a "[\<lparr>card_candidate = cand_a, saveBtn = 0\<rparr>]" 0 0 cand_a
      "Some ''ok''", THEN conjunct1]
  note b = save_control [of saved_shown "[\<lparr>card_candidate = cand_a, saveBtn = 0\<rparr>]" 0 0 cand_a
      "Some ''ok''", THEN conjunct1]
  from a have 1: "sent (click_save 0 shown_a) = [SearchReq ''pharma'' ''fda'' None, SaveReq cand_a]"
    and 2: "inflight (click_save 0 shown_a) = [SaveP cand_a (Some 0)]"
    and 3: "buttons (click_save 0 shown_a) = buttons shown_a"
    by (simp_all add: shown_a_page)
  from b have 4: "click_save 0 saved_shown = saved_shown"
    by (simp add: saved_shown_page)
  from 1 2 3 4 show ?thesis by (simp add: shown_a_page saved_shown_page)
qed

subsection \<open>A failed save\<close>

text \<open>
  C4: when the save request is rejected or answered with a response that is not ok, the
  saved cache is unchanged, every control is as it was (the save control stays
  enabled), the error is appended to the console log, the toast
  \<open>Unable to save candidate.\<close> is appended to the toast container of the page, and the
  requests sent, the results and what is rendered stay the same: the handler returns.
\<close>

theorem handleSave_failure:
  "r = NetworkError \<or> r = Response False body \<Longrightarrow>
     saved (handleSave_resolve c b r s) = saved s \<and>
     buttons (handleSave_resolve c b r s) = buttons s \<and>
     (\<exists>e. console (handleSave_resolve c b r s) = console s @ [e]) \<and>
     toastContainer (handleSave_resolve c b r s) =
       map_option (\<lambda>ts. ts @ [''Unable to save candidate.'']) (toastContainer s) \<and>
     sent (handleSave_resolve c b r s) = sent s \<and>
     results (handleSave_resolve c b r s) = results s \<and>
     filtered (handleSave_resolve c b r s) = filtered s \<and>
     resultsEl (handleSave_resolve c b r s) = resultsEl s \<and>
     savedListEl (handleSave_resolve c b r s) = savedListEl s"
  by (auto simp: handleSave_resolve_def Let_def)

text \<open>
  A save of candidate \<open>a\<close> that is rejected, and one answered with a response that is
  not ok.
\<close>

theorem handleSave_failure_witness:
  "saved (handleSave_resolve cand_a (Some 0) NetworkError (click_save 0 shown_a)) = [] \<and>
   \<not> disabled (buttons (handleSave_resolve cand_a (Some 0) NetworkError
      (click_save 0 shown_a)) ! 0) \<and>
   toastContainer (handleSave_resolve cand_a (Some 0) (Response False None)
      (click_save 0 shown_a)) = Some [''Unable to save candidate.''] \<and>
   saved (handleSave_resolve cand_a (Some 0) (Response False None) (click_save 0 shown_a)) = []"
proof -
  have c: "saved (click_save 0 shown_a) = []" "toastContainer (click_save 0 shown_a) = Some []"
    "buttons (click_save 0 shown_a) = [\<lparr>textContent = ''Save'', disabled = False\<rparr>]"
    by code_simp+
  from handleSave_failure [of NetworkError None cand_a "Some 0" "click_save 0 shown_a"]
    handleSave_failure [of "Response False None" None cand_a "Some 0" "click_save 0 shown_a"]
  show ?thesis by (simp add: c shown_a_page)
qed

subsection \<open>A duplicate save\<close>

lemma dup_saved:
  "saved (handleSave_resolve c b (Response True (Some (JData st))) s) =
     AList.update (id_c c) c (saved s)"
  by (simp add: saved_handleSave_resolve)

lemma dup_console:
  "console (handleSave_resolve c b (Response True (Some (JData st))) s) = console s"
  by (simp add: handleSave_resolve_def Let_def)

lemma dup_toast:
  "toastContainer (handleSave_resolve c b (Response True (Some (JData st))) s) =
     map_option (\<lambda>ts. ts @ [if st = Some ''duplicate'' then ''Already saved.''
                              else ''Candidate saved.'']) (toastContainer s)"
  by (simp add: handleSave_resolve_def Let_def toastContainer_showToast)

lemma showToast_as_update:
  "showToast m s = s\<lparr>toastContainer := map_option (\<lambda>ts. ts @ [m]) (toastContainer s)\<rparr>"
  by (simp add: showToast_def split: option.splits)

lemma mark_saved_toast_update:
  "mark_saved b (s\<lparr>toastContainer := t\<rparr>) = (mark_saved b s)\<lparr>toastContainer := t\<rparr>"
  by (simp add: mark_saved_def split: option.splits)

lemma renderSaved_toast_update:
  "renderSaved (s\<lparr>toastContainer := t\<rparr>) = (renderSaved s)\<lparr>toastContainer := t\<rparr>"
  by (simp add: renderSaved_def Let_def split: option.splits)

lemma dup_as_update:
  "handleSave_resolve c b (Response True (Some (JData st))) s =
     (renderSaved (mark_saved b
        (settle (SaveP c b) s\<lparr>saved := AList.update (id_c c) c (saved s)\<rparr>)))
     \<lparr>toastContainer := map_option (\<lambda>ts. ts @ [if st = Some ''duplicate'' then ''Already saved.''
                              else ''Candidate saved.'']) (toastContainer s)\<rparr>"
  by (simp add: handleSave_resolve_def Let_def showToast_as_update mark_saved_toast_update
        renderSaved_toast_update del: map_option_eq_Some)

text \<open>
  C5: a save answered ok with status \<open>duplicate\<close> stores the candidate under its id;
  distinct keys stay distinct; when the id is already a key the keys are unchanged, and
  when the candidate is already stored under its id the cache is unchanged. Nothing is
  logged as an error. The toast is \<open>Already saved.\<close> where a fresh save shows
  \<open>Candidate saved.\<close>, and apart from the toast the resulting page is the one of a
  fresh save.
\<close>

theorem handleSave_duplicate:
  "saved (handleSave_resolve c b (Response True (Some (JData (Some ''duplicate'')))) s) =
     AList.update (id_c c) c (saved s) \<and>
   (distinct (map fst (saved s)) \<longrightarrow>
      distinct (map fst (saved (handleSave_resolve c b
        (Response True (Some (JData (Some ''duplicate'')))) s)))) \<and>
   (has_key (saved s) (id_c c) \<longrightarrow>
      map fst (saved (handleSave_resolve c b
        (Response True (Some (JData (Some ''duplicate'')))) s)) = map fst (saved s)) \<and>
   (map_of (saved s) (id_c c) = Some c \<longrightarrow>
      saved (handleSave_resolve c b (Response True (Some (JData (Some ''duplicate'')))) s) =
        saved s) \<and>
   console (handleSave_resolve c b (Response True (Some (JData (Some ''duplicate'')))) s) =
     console s \<and>
   toastContainer (handleSave_resolve c b (Response True (Some (JData (Some ''duplicate'')))) s) =
     map_option (\<lambda>ts. ts @ [''Already saved.'']) (toastContainer s) \<and>
   toastContainer (handleSave_resolve c b (Response True (Some (JData (Some ''ok'')))) s) =
     map_option (\<lambda>ts. ts @ [''Candidate saved.'']) (toastContainer s) \<and>
   (handleSave_resolve c b (Response True (Some (JData (Some ''duplicate'')))) s)
     \<lparr>toastContainer := toastContainer
        (handleSave_resolve c b (Response True (Some (JData (Some ''ok'')))) s)\<rparr> =
     handleSave_resolve c b (Response True (Some (JData (Some ''ok'')))) s"
proof (intro conjI impI)
  show "(handleSave_resolve c b (Response True (Some (JData (Some ''duplicate'')))) s)
     \<lparr>toastContainer := toastContainer
        (handleSave_resolve c b (Response True (Some (JData (Some ''ok'')))) s)\<rparr> =
     handleSave_resolve c b (Response True (Some (JData (Some ''ok'')))) s"
    unfolding dup_as_update by simp
next
  assume "map_of (saved s) (id_c c) = Some c"
  then show "saved (handleSave_resolve c b (Response True (Some (JData (Some ''duplicate'')))) s)
      = saved s"
    by (simp add: dup_saved update_triv)
next
  assume "has_key (saved s) (id_c c)"
  then show "map fst (saved (handleSave_resolve c b
        (Response True (Some (JData (Some ''duplicate'')))) s)) = map fst (saved s)"
    by (simp add: dup_saved update_keys has_key_def)
next
  assume "distinct (map fst (saved s))"
  then show "distinct (map fst (saved (handleSave_resolve c b
        (Response True (Some (JData (Some ''duplicate'')))) s)))"
    by (simp add: dup_saved distinct_update)
qed (simp_all add: dup_saved dup_console dup_toast)

text \<open>
  Candidate \<open>a\<close> is in the cache and is saved again.
\<close>

theorem handleSave_duplicate_witness:
  "distinct (map fst (saved saved_a)) \<and> has_key (saved saved_a) (id_c cand_a) \<and>
   map_of (saved saved_a) (id_c cand_a) = Some cand_a \<and>
   saved (handleSave_resolve cand_a None (Response True (Some (JData (Some ''duplicate''))))
      saved_a) = [(Some ''a'', cand_a)] \<and>
   toastContainer (handleSave_resolve cand_a None
      (Response True (Some (JData (Some ''duplicate'')))) saved_a) = Some [''Already saved.'']"
proof -
  have c: "saved saved_a = [(Some ''a'', cand_a)]" "toastContainer saved_a = Some []"
    "id_c cand_a = Some ''a''"
    by (simp_all add: saved_a_def page0_def cand_a_def)
  from handleSave_duplicate [of cand_a None saved_a]
  show ?thesis by (simp add: c has_key_def)
qed

subsection \<open>Deleting\<close>

text \<open>
  C6, as stated, fails for an ok response whose status is not \<open>ok\<close>: the cache is
  left alone, but no toast is shown.
\<close>

theorem handleDelete_silent_counterexample:
  "toastContainer (handleDelete_resolve lower_ascii (Some ''a'')
      (Response True (Some (JData (Some ''not_found'')))) saved_a) = toastContainer saved_a \<and>
   toastContainer saved_a = Some []"
  by (simp add: handleDelete_resolve_def Let_def saved_a_def page0_def)

lemma delete_ok:
  "handleDelete_resolve lc k (Response True (Some (JData (Some ''ok'')))) s =
     applyFilters lc (renderSaved (showToast ''Removed from saved.''
        (settle (DeleteP k) s\<lparr>saved := AList.delete k (saved s)\<rparr>)))"
  by (simp add: handleDelete_resolve_def Let_def)

lemma filtered_applyFilters_cong:
  "results s = results t \<Longrightarrow> filters s = filters t \<Longrightarrow>
   filtered (applyFilters lc s) = filtered (applyFilters lc t)"
  by (simp add: applyFilters_def Let_def filtered_renderResults)

lemma resultsEl_applyFilters:
  "resultsEl s \<noteq> None \<Longrightarrow>
   \<exists>cards. resultsEl (applyFilters lc s) = Some cards \<and>
     map card_candidate cards = filtered (applyFilters lc s)"
proof -
  assume a: "resultsEl s \<noteq> None"
  let ?t = "s\<lparr>filtered := filter (keep lc (number_or_0 (filterSimilarity (filters s)))
      (number_or_0 (filterExperience (filters s)))
      (toLowerCase lc (trim (filterSector (filters s))))
      (toLowerCase lc (trim (filterLocation (filters s))))) (results s)\<rparr>"
  have t: "applyFilters lc s = renderResults ?t" by (simp add: applyFilters_def Let_def)
  have "resultsEl ?t \<noteq> None" using a by simp
  from renderResults_cards [OF this] show ?thesis
    unfolding t by (auto simp: filtered_renderResults)
qed

text \<open>
  C6 (amended): the entry is removed from the saved cache iff the response is ok with
  status exactly \<open>ok\<close>; then the toast \<open>Removed from saved.\<close> is shown and the saved
  list and the filtered view are rendered again. When the request is rejected, the
  response is not ok, or its body does not parse or is \<open>null\<close>, the cache is untouched
  and the toast \<open>Unable to remove candidate.\<close> is shown. An ok response with any other
  status leaves the page as it was: the cache is untouched and no toast is shown.
\<close>

theorem handleDelete_outcome:
  "saved (handleDelete_resolve lc k r s) =
     (if r = Response True (Some (JData (Some ''ok''))) then AList.delete k (saved s)
      else saved s) \<and>
   \<not> has_key (AList.delete k (saved s)) k \<and>
   (r = Response True (Some (JData (Some ''ok''))) \<longrightarrow>
      toastContainer (handleDelete_resolve lc k r s) =
        map_option (\<lambda>ts. ts @ [''Removed from saved.'']) (toastContainer s) \<and>
      (savedListEl s \<noteq> None \<and> savedEmptyEl s \<noteq> None \<longrightarrow>
         (\<exists>h. savedListEl (handleDelete_resolve lc k r s) =
                Some (map snd (AList.delete k (saved s)), h))) \<and>
      filtered (handleDelete_resolve lc k r s) = filtered (applyFilters lc s) \<and>
      (resultsEl s \<noteq> None \<longrightarrow>
         (\<exists>cards. resultsEl (handleDelete_resolve lc k r s) = Some cards \<and>
            map card_candidate cards = filtered (applyFilters lc s)))) \<and>
   (r = NetworkError \<or> r = Response False body \<or> r = Response True None \<or>
    r = Response True (Some JNull) \<longrightarrow>
      toastContainer (handleDelete_resolve lc k r s) =
        map_option (\<lambda>ts. ts @ [''Unable to remove candidate.'']) (toastContainer s)) \<and>
   (r = Response True (Some (JData st)) \<and> st \<noteq> Some ''ok'' \<longrightarrow>
      handleDelete_resolve lc k r s = settle (DeleteP k) s)"
proof (intro conjI impI)
  show "saved (handleDelete_resolve lc k r s) =
     (if r = Response True (Some (JData (Some ''ok''))) then AList.delete k (saved s)
      else saved s)"
    by (rule saved_handleDelete_resolve)
  show "\<not> has_key (AList.delete k (saved s)) k"
    by (simp add: has_key_def delete_keys)
next
  assume r: "r = Response True (Some (JData (Some ''ok'')))"
  let ?u = "renderSaved (showToast ''Removed from saved.''
        (settle (DeleteP k) s\<lparr>saved := AList.delete k (saved s)\<rparr>))"
  have d: "handleDelete_resolve lc k r s = applyFilters lc ?u"
    unfolding r by (rule delete_ok)
  show "toastContainer (handleDelete_resolve lc k r s) =
        map_option (\<lambda>ts. ts @ [''Removed from saved.'']) (toastContainer s)"
    unfolding d by (simp add: toastContainer_showToast settle_def)
  show "filtered (handleDelete_resolve lc k r s) = filtered (applyFilters lc s)"
    unfolding d by (rule filtered_applyFilters_cong) (simp_all add: settle_def)
  {
    assume "savedListEl s \<noteq> None \<and> savedEmptyEl s \<noteq> None"
    then have "\<exists>h. savedListEl (renderSaved (showToast ''Removed from saved.''
        (settle (DeleteP k) s\<lparr>saved := AList.delete k (saved s)\<rparr>))) =
        Some (map snd (saved (showToast ''Removed from saved.''
        (settle (DeleteP k) s\<lparr>saved := AList.delete k (saved s)\<rparr>))), h)"
      by (intro renderSaved_list) (simp_all add: settle_def)
    then show "\<exists>h. savedListEl (handleDelete_resolve lc k r s) =
                Some (map snd (AList.delete k (saved s)), h)"
      unfolding d by (simp add: settle_def)
  }
  {
    assume "resultsEl s \<noteq> None"
    then have "resultsEl ?u \<noteq> None" by (simp add: settle_def)
    from resultsEl_applyFilters [OF this]
    have "\<exists>cards. resultsEl (applyFilters lc ?u) = Some cards \<and>
            map card_candidate cards = filtered (applyFilters lc ?u)" .
    moreover have "filtered (applyFilters lc ?u) = filtered (applyFilters lc s)"
      by (rule filtered_applyFilters_cong) (simp_all add: settle_def)
    ultimately show "\<exists>cards. resultsEl (handleDelete_resolve lc k r s) = Some cards \<and>
            map card_candidate cards = filtered (applyFilters lc s)"
      unfolding d by simp
  }
next
  assume "r = NetworkError \<or> r = Response False body \<or> r = Response True None \<or>
    r = Response True (Some JNull)"
  then show "toastContainer (handleDelete_resolve lc k r s) =
        map_option (\<lambda>ts. ts @ [''Unable to remove candidate.'']) (toastContainer s)"
    by (auto simp: handleDelete_resolve_def Let_def)
next
  assume "r = Response True (Some (JData st)) \<and> st \<noteq> Some ''ok''"
  then show "handleDelete_resolve lc k r s = settle (DeleteP k) s"
    by (simp add: handleDelete_resolve_def Let_def)
qed

text \<open>
  Deleting candidate \<open>a\<close> from the cache: answered ok, rejected, and answered with
  another status.
\<close>

theorem handleDelete_outcome_witness:
  "saved (handleDelete_resolve lower_ascii (Some ''a'') (Response True (Some (JData (Some ''ok'')))) saved_a)
     = [] \<and>
   toastContainer (handleDelete_resolve lower_ascii (Some ''a'')
      (Response True (Some (JData (Some ''ok'')))) saved_a) = Some [''Removed from saved.''] \<and>
   saved (handleDelete_resolve lower_ascii (Some ''a'') NetworkError saved_a) = [(Some ''a'', cand_a)] \<and>
   toastContainer (handleDelete_resolve lower_ascii (Some ''a'') NetworkError saved_a) =
     Some [''Unable to remove candidate.''] \<and>
   handleDelete_resolve lower_ascii (Some ''a'') (Response True (Some (JData (Some ''not_found'')))) saved_a =
     settle (DeleteP (Some ''a'')) saved_a"
proof -
  have c: "saved saved_a = [(Some ''a'', cand_a)]" "toastContainer saved_a = Some []"
    by (simp_all add: saved_a_def page0_def)
  from handleDelete_outcome [of lower_ascii "Some ''a''" "Response True (Some (JData (Some ''ok'')))" saved_a]
    handleDelete_outcome [of lower_ascii "Some ''a''" NetworkError saved_a]
    handleDelete_outcome [of lower_ascii "Some ''a''" "Response True (Some (JData (Some ''not_found'')))"
      saved_a None "Some ''not_found''"]
  show ?thesis by (simp add: c)
qed

subsection \<open>The saved cache is keyed by id\<close>

lemma keyed_update: "keyed m \<Longrightarrow> keyed (AList.update (id_c c) c m)"
  by (induction m) (auto simp: keyed_def)

lemma keyed_delete: "keyed m \<Longrightarrow> keyed (AList.delete k m)"
  by (induction m) (auto simp: keyed_def)

lemma keyed_insert_saved: "keyed m \<Longrightarrow> keyed (insert_saved m x)"
  by (cases x) (simp_all add: keyed_update)

lemma keyed_foldl_insert_saved: "keyed m \<Longrightarrow> keyed (foldl insert_saved m xs)"
  by (induction xs arbitrary: m) (simp_all add: keyed_insert_saved)

lemma keys_insert_saved:
  "fst ` set (insert_saved m x) \<subseteq> fst ` set m \<union> {k. truthy_str k}"
  by (cases x) (auto simp: dom_update)

lemma keys_foldl_insert_saved:
  "fst ` set (foldl insert_saved m xs) \<subseteq> fst ` set m \<union> {k. truthy_str k}"
proof (induction xs arbitrary: m)
  case Nil
  then show ?case by simp
next
  case (Cons x xs)
  have "fst ` set (foldl insert_saved (insert_saved m x) xs)
        \<subseteq> fst ` set (insert_saved m x) \<union> {k. truthy_str k}"
    by (rule Cons.IH)
  also have "\<dots> \<subseteq> fst ` set m \<union> {k. truthy_str k}"
    using keys_insert_saved [of m x] by blast
  finally show ?case by simp
qed

lemma keyed_handleSave_resolve: "keyed (saved s) \<Longrightarrow> keyed (saved (handleSave_resolve c b r s))"
  by (simp add: saved_handleSave_resolve keyed_update
        split: response.splits option.splits bool.splits)

lemma keyed_handleDelete_resolve: "keyed (saved s) \<Longrightarrow> keyed (saved (handleDelete_resolve lc k r s))"
  by (simp add: saved_handleDelete_resolve keyed_delete)

lemma keyed_fetchSaved_resolve: "keyed (saved s) \<Longrightarrow> keyed (saved (fetchSaved_resolve r s))"
  by (simp add: saved_fetchSaved_resolve keyed_foldl_insert_saved
        split: response.splits option.splits bool.splits saved_body.splits)

lemma saved_updateStatus [simp]: "saved (updateStatus m s) = saved s"
  by (simp add: updateStatus_def split: option.splits)

lemma saved_startLoading [simp]: "saved (startLoading s) = saved s"
  by (simp add: startLoading_def Let_def split: option.splits)

lemma saved_stopLoading [simp]: "saved (stopLoading s) = saved s"
  by (simp add: stopLoading_def)

lemma saved_search_catch [simp]: "saved (search_catch m s) = saved s"
  by (simp add: search_catch_def Let_def split: option.splits)

lemma saved_onSubmit [simp]: "saved (onSubmit i d n s) = saved s"
  by (simp add: onSubmit_def Let_def split: option.splits)

lemma saved_onSubmit_resolve [simp]: "saved (onSubmit_resolve lc r s) = saved s"
  by (simp add: onSubmit_resolve_def Let_def split: search_response.splits)

lemma saved_click_save [simp]: "saved (click_save i s) = saved s"
  by (simp add: click_save_def handleSave_send_def split: option.splits)

lemma saved_click_remove [simp]: "saved (click_remove i s) = saved s"
  by (simp add: click_remove_def handleDelete_send_def split: option.splits prod.splits)

lemma saved_toggleSaved [simp]: "saved (toggleSaved s) = saved s"
  by (simp add: toggleSaved_def split: option.splits prod.splits)

lemma saved_handleFilters [simp]: "saved (handleFilters lc fi s) = saved s"
  by (simp add: handleFilters_def)

lemma saved_stopLoading_timeout [simp]: "saved (stopLoading_timeout b s) = saved s"
  by (simp add: stopLoading_timeout_def Let_def split: option.splits)

lemma keyed_step: "keyed (saved s) \<Longrightarrow> keyed (saved (step lc e s))"
  by (cases e)
     (simp_all add: keyed_handleSave_resolve keyed_handleDelete_resolve keyed_fetchSaved_resolve)

lemma keyed_reachable: "reachable lc s \<Longrightarrow> keyed (saved s)"
proof (induction rule: reachable.induct)
  case (reachable_init s)
  then show ?case by (simp add: init_def fetchSaved_send_def fresh_def keyed_def)
next
  case (reachable_step s e)
  then show ?case by (simp add: keyed_step)
qed

text \<open>
  C10: in every reachable state each key of the saved cache is the id of the candidate
  stored under it; \<open>fetchSaved\<close>, \<open>handleSave\<close> and \<open>handleDelete\<close> keep it so,
  whatever the answer; and a key that \<open>fetchSaved\<close> adds is an id that is present and
  not empty.
\<close>

theorem saved_cache_keyed:
  "(reachable lc s \<longrightarrow> keyed (saved s)) \<and>
   (keyed (saved s) \<longrightarrow>
      keyed (saved (fetchSaved_resolve r1 s)) \<and>
      keyed (saved (handleSave_resolve c b r2 s)) \<and>
      keyed (saved (handleDelete_resolve lc k r3 s))) \<and>
   fst ` set (saved (fetchSaved_resolve r1 s)) \<subseteq> fst ` set (saved s) \<union> {k. truthy_str k}"
proof (intro conjI impI)
  show "fst ` set (saved (fetchSaved_resolve r1 s)) \<subseteq> fst ` set (saved s) \<union> {k. truthy_str k}"
    using keys_foldl_insert_saved
    by (auto simp: saved_fetchSaved_resolve
          split: response.splits option.splits bool.splits saved_body.splits)
qed (simp_all add: keyed_reachable keyed_handleSave_resolve keyed_handleDelete_resolve
       keyed_fetchSaved_resolve)

text \<open>
  The state after \<open>init\<close> is reachable, and the three operations on it keep the cache
  keyed.
\<close>

theorem saved_cache_keyed_witness:
  "reachable lower_ascii (init page0) \<and> keyed (saved (init page0)) \<and>
   keyed (saved (fetchSaved_resolve (Response True (Some (Array [Some cand_a, None, Some cand_b])))
      (init page0))) \<and>
   keyed (saved (handleSave_resolve cand_a None (Response True (Some (JData (Some ''ok''))))
      (init page0))) \<and>
   keyed (saved (handleDelete_resolve lower_ascii (Some ''a'') (Response True (Some (JData (Some ''ok''))))
      (init page0)))"
proof -
  have r: "reachable lower_ascii (init page0)"
    by (rule reachable_init) (simp add: fresh_def page0_def)
  from saved_cache_keyed [of lower_ascii "init page0"
      "Response True (Some (Array [Some cand_a, None, Some cand_b]))" cand_a None
      "Response True (Some (JData (Some ''ok'')))" "Some ''a''"
      "Response True (Some (JData (Some ''ok'')))"] r
  show ?thesis by simp
qed

section \<open>Escaping in the issue spotter\<close>

lemma replace_all_append:
  "replace_all c rep (a @ b) = replace_all c rep a @ replace_all c rep b"
  by (simp add: replace_all_def)

lemma replace_all_Nil: "replace_all c rep [] = []"
  by (simp add: replace_all_def)

lemma replace_all_Cons:
  "replace_all c rep (x # xs) = (if x = c then rep else [x]) @ replace_all c rep xs"
  by (simp add: replace_all_def)

lemma escape_chain_single: "escape_chain [x] = entity x"
  by (simp add: escape_chain_def entity_def replace_all_Cons replace_all_Nil)

lemma escape_chain_append: "escape_chain (a @ b) = escape_chain a @ escape_chain b"
  by (simp add: escape_chain_def replace_all_append)

lemma escape_chain_entities: "escape_chain s = concat (map entity s)"
proof (induction s)
  case Nil
  then show ?case by (simp add: escape_chain_def replace_all_Nil)
next
  case (Cons x xs)
  have "escape_chain (x # xs) = escape_chain ([x] @ xs)" by simp
  also have "\<dots> = entity x @ escape_chain xs"
    by (simp only: escape_chain_append escape_chain_single)
  finally show ?case using Cons.IH by simp
qed

lemma entity_safe: "ch \<in> set (entity x) \<Longrightarrow> ch \<notin> {CHR ''<'', CHR ''>'', CHR 0x22, CHR 0x27}"
  by (auto simp: entity_def split: if_splits)

lemma markups_append: "markups (a @ b) = markups a @ markups b"
  by (induction a rule: markups.induct) simp_all

lemma markups_render_finding:
  "markups (render_finding fmt i item) =
     (if truthy (risk item)
      then [''<strong>Risk:</strong> '' @ escapeHtml fmt (risk item)] else []) @
     (if truthy (suggestion item)
      then [''<strong>Suggestion:</strong> '' @ escapeHtml fmt (suggestion item)] else []) @
     (case span_f item of
        None \<Rightarrow> []
      | Some sp \<Rightarrow>
          if truthy (page sp) \<or> truthy (start sp) \<or> truthy (end_s sp)
          then [''<strong>Span:</strong> '' @
                  escapeHtml fmt (Str (join bullet (span_parts fmt sp)))]
          else [])"
  by (simp add: render_finding_def markups_append split: option.splits)

text \<open>
  C7: \<open>escapeHtml\<close> replaces every occurrence of the five characters by its entity and
  changes nothing else, so its result holds none of \<open><\<close>, \<open>>\<close> and the two quotes;
  and the markup that \<open>renderFindings\<close> and \<open>renderCitations\<close> set is fixed markup
  around the escaped risk, suggestion, span label, page label and snippet.
\<close>

theorem escapeHtml_escapes:
  "escapeHtml fmt v = concat (map entity (to_string fmt (if truthy v then v else Str []))) \<and>
   (\<forall>ch\<in>set (escapeHtml fmt v). ch \<notin> {CHR ''<'', CHR ''>'', CHR 0x22, CHR 0x27}) \<and>
   markups (render_finding fmt i item) =
     (if truthy (risk item)
      then [''<strong>Risk:</strong> '' @ escapeHtml fmt (risk item)] else []) @
     (if truthy (suggestion item)
      then [''<strong>Suggestion:</strong> '' @ escapeHtml fmt (suggestion item)] else []) @
     (case span_f item of
        None \<Rightarrow> []
      | Some sp \<Rightarrow>
          if truthy (page sp) \<or> truthy (start sp) \<or> truthy (end_s sp)
          then [''<strong>Span:</strong> '' @
                  escapeHtml fmt (Str (join bullet (span_parts fmt sp)))]
          else []) \<and>
   markups (render_citation fmt cit) =
     [''<strong>'' @ escapeHtml fmt (Str (pageLabel fmt cit)) @ '':</strong> '' @
      escapeHtml fmt (snippet cit)]"
proof (intro conjI)
  have e: "escapeHtml fmt v = escape_chain (to_string fmt (if truthy v then v else Str []))" for v
    by (simp add: escapeHtml_def escape_chain_def)
  show a: "escapeHtml fmt v = concat (map entity (to_string fmt (if truthy v then v else Str [])))"
    by (simp only: e escape_chain_entities)
  show "\<forall>ch\<in>set (escapeHtml fmt v). ch \<notin> {CHR ''<'', CHR ''>'', CHR 0x22, CHR 0x27}"
    unfolding a using entity_safe by fastforce
  show "markups (render_citation fmt cit) =
     [''<strong>'' @ escapeHtml fmt (Str (pageLabel fmt cit)) @ '':</strong> '' @
      escapeHtml fmt (snippet cit)]"
    by (simp add: render_citation_def e)
qed (rule markups_render_finding)

text \<open>
  A risk text that carries markup is shown as text.
\<close>

theorem escapeHtml_escapes_witness:
  "escapeHtml fmt_floor (Str ''<b>high</b> & rising'') = ''&lt;b&gt;high&lt;/b&gt; &amp; rising'' \<and>
   CHR ''<'' \<notin> set (escapeHtml fmt_floor (Str ''<b>high</b> & rising'')) \<and>
   markups (render_finding fmt_floor 0 finding0) =
     [''<strong>Risk:</strong> &lt;b&gt;high&lt;/b&gt; &amp; rising'',
      ''<strong>Span:</strong> Page 3'' @ bullet @ ''Chars ?-40'']"
proof -
  note t = escapeHtml_escapes [of fmt_floor "Str ''<b>high</b> & rising''" 0 finding0]
  have a: "escapeHtml fmt_floor (Str ''<b>high</b> & rising'') =
      ''&lt;b&gt;high&lt;/b&gt; &amp; rising''"
    using t [THEN conjunct1] by (simp add: entity_def)
  have b: "CHR ''<'' \<notin> set (escapeHtml fmt_floor (Str ''<b>high</b> & rising''))"
    using t [THEN conjunct2, THEN conjunct1] by blast
  have sp: "escapeHtml fmt_floor (Str (join bullet
        (span_parts fmt_floor \<lparr>page = Num 3, start = Undefined, end_s = Num 40\<rparr>))) =
      ''Page 3'' @ bullet @ ''Chars ?-40''"
    by code_simp
  have c: "markups (render_finding fmt_floor 0 finding0) =
     [''<strong>Risk:</strong> &lt;b&gt;high&lt;/b&gt; &amp; rising'',
      ''<strong>Span:</strong> Page 3'' @ bullet @ ''Chars ?-40'']"
    using t [THEN conjunct2, THEN conjunct2, THEN conjunct1] a sp
    by (simp add: finding0_def)
  from a b c show ?thesis by (intro conjI)
qed

section \<open>Copying a candidate\<close>

text \<open>
  C9, as stated, fails for a candidate whose name is empty: the name line is not
  omitted.
\<close>

theorem copyCandidate_empty_name_counterexample:
  "name cand_noname = [] \<and> copy_lines fmt_floor cand_noname ! 0 = ''Name: ''"
  by (simp add: cand_noname_def cand_a_def copy_lines_def copy_entries_def)

text \<open>
  C9 (amended): the copied text is the lines joined by line feeds, in the order name,
  title, organization, sector, location, years experience, similarity, summary, skills,
  links. The name and similarity lines are always there; the line of title,
  organization, sector, location, summary, skills or links is omitted when the field is
  empty or absent, the line of years experience when it is absent.
\<close>

theorem copyCandidate_lines:
  "copyCandidate fmt c = join [CHR 0x0A] (copy_lines fmt c) \<and>
   copy_lines fmt c =
     [''Name: '' @ name c] @
     line_of ''Title: '' (title c) @
     line_of ''Organization: '' (organization c) @
     line_of ''Sector: '' (sector c) @
     line_of ''Location: '' (location c) @
     (case years_experience c of None \<Rightarrow> [] | Some y \<Rightarrow> [''Years experience: '' @ fmt y]) @
     [''Similarity: '' @ fmt (similarity_score c) @ ''%''] @
     line_of ''Summary: '' (summary c) @
     list_line ''Skills: '' (skills c) @
     list_line ''Links: '' (links c)"
  by (simp add: copyCandidate_def copy_lines_def copy_entries_def line_of_def list_line_def
        split: option.splits)

text \<open>
  The summary copied for candidate \<open>a\<close>.
\<close>

theorem copyCandidate_lines_witness:
  "copyCandidate fmt_floor cand_a =
     ''Name: Ann'' @ [CHR 0x0A] @ ''Sector: Pharma'' @ [CHR 0x0A] @ ''Location: NY'' @
     [CHR 0x0A] @ ''Years experience: 5'' @ [CHR 0x0A] @ ''Similarity: 90%''"
proof -
  have f: "fmt_floor 5 = ''5''" "fmt_floor 90 = ''90''" by code_simp+
  from copyCandidate_lines [of fmt_floor cand_a]
  show ?thesis by (simp add: cand_a_def line_of_def list_line_def f)
qed

section \<open>Validation of the two forms\<close>

lemma onSubmit_invalid:
  "trim industry = [] \<or> trim description = [] \<Longrightarrow>
   sent (onSubmit industry description n s) = sent s \<and>
   focused (onSubmit industry description n s) = focused s \<and>
   (errorEl s \<noteq> None \<longrightarrow> \<not> loading s \<longrightarrow>
      errorEl (onSubmit industry description n s) =
        Some (False, ''Industry and description are required.''))"
  by (auto simp: onSubmit_def Let_def split: option.splits)

lemma submit_handler_no_document:
  "\<not> hasFile \<Longrightarrow> trim text_value = [] \<Longrightarrow>
   sent_is (submit_handler hasFile text_value instructions style wantsJson s) = sent_is s \<and>
   focused_is (submit_handler hasFile text_value instructions style wantsJson s) =
     Some ''fileInput'' \<and>
   (errorEl_is s \<noteq> None \<longrightarrow>
      errorEl_is (submit_handler hasFile text_value instructions style wantsJson s) =
        Some (False, ''Upload a document or paste text to analyze.''))"
  by (auto simp: submit_handler_def Let_def showError_def clearError_def split: option.splits)

lemma submit_handler_no_instructions:
  "hasFile \<or> trim text_value \<noteq> [] \<Longrightarrow> trim instructions = [] \<Longrightarrow>
   sent_is (submit_handler hasFile text_value instructions style wantsJson s) = sent_is s \<and>
   focused_is (submit_handler hasFile text_value instructions style wantsJson s) =
     Some ''instructionsInput'' \<and>
   (errorEl_is s \<noteq> None \<longrightarrow>
      errorEl_is (submit_handler hasFile text_value instructions style wantsJson s) =
        Some (False, ''Instructions are required.''))"
  by (auto simp: submit_handler_def Let_def showError_def clearError_def split: option.splits)

text \<open>
  C8 at a witness search without industry: no request is sent and the error is shown,
  but the focus stays where it was, while the issue-spotter form, submitted without a
  document, moves the focus to the file input.
\<close>

theorem onSubmit_missing_industry_keeps_focus:
  "sent (onSubmit [] ''fda'' [] page0) = [] \<and>
   errorEl (onSubmit [] ''fda'' [] page0) =
     Some (False, ''Industry and description are required.'') \<and>
   focused (onSubmit [] ''fda'' [] page0) = None \<and>
   focused_is (submit_handler False [] ''find risks'' [] False spot0) = Some ''fileInput''"
  by (simp add: onSubmit_def Let_def page0_def trim_ascii submit_handler_def spot0_def
        showError_def clearError_def)

end
